theory Spec2Isabelle
  imports Main
begin

section \<open>The converter of icon-dex: data model\<close>

text \<open>
  The model follows \<^verbatim>\<open>contracts/converter/converter.py\<close>. Python integers are
  unbounded, so amounts, weights and fees are \<^typ>\<open>int\<close>. An \<^verbatim>\<open>Address\<close> is an
  opaque identity compared with \<^verbatim>\<open>==\<close> only; it is modelled as a number.
  A \<^verbatim>\<open>VarDB\<close> that has never been written reads as \<^verbatim>\<open>0\<close>, \<^verbatim>\<open>False\<close> or
  \<^verbatim>\<open>None\<close>; an address slot is therefore an \<^typ>\<open>nat option\<close>.
\<close>

type_synonym address = nat

text \<open>
  Every \<^verbatim>\<open>require\<close> and \<^verbatim>\<open>revert\<close> of the source is one constructor, named after
  the message it carries. The last group belongs to helpers that the converter imports
  from modules outside the two source files.
\<close>

datatype error =
    InvalidConnector
  | InvalidMaxConversionFee
  | InvalidConversionFee
  | InvalidConnectorWeight
  | ConversionsNotEnabled
  | SameToken
  | ReturnLessThanMinimum
  | ConnectorBalanceCondition
  | PurchaseNotEnabled
  | TokenIsFlexibleToken
  | TokenAlreadySet
  | TotalWeightOverflow
  | RegistryUpdateNotAllowed
  | SameRegistry
  | InvalidAddress
  | NotPositiveValue
  | NotOwner
  | NotOwnerOrManager
  | NotActive
  | NotInactive
  | TokenIsThis
  | SubtractionUnderflow
  | NonIntegerAmount
  | FormulaFailure
  | ExternalCallFailure

record connector =
  virtual_balance :: int
  weight :: int
  is_virtual_balance_enabled :: bool
  is_purchase_enabled :: bool
  is_set :: bool

record converter =
  allow_registry_update :: bool
  prev_registry :: "address option"
  registry :: "address option"
  connector_tokens :: "address list"
  total_connector_weight :: int
  max_conversion_fee :: int
  conversion_fee :: int
  conversions_enabled :: bool
  connectors :: "address \<Rightarrow> connector"

datatype event =
    Conversion address address address int int int
  | PriceDataUpdate address int int int
  | ConversionFeeUpdate int int
  | ConversionsEnable bool

definition MAX_WEIGHT :: int where
  "MAX_WEIGHT = 1000000"

definition MAX_CONVERSION_FEE :: int where
  "MAX_CONVERSION_FEE = 1000000"

text \<open>The storage of a contract that has just been deployed and not yet installed.\<close>

definition unset_connector :: connector where
  "unset_connector = \<lparr>virtual_balance = 0, weight = 0, is_virtual_balance_enabled = False,
     is_purchase_enabled = False, is_set = False\<rparr>"

definition blank_storage :: converter where
  "blank_storage = \<lparr>allow_registry_update = False, prev_registry = None,
     registry = None, connector_tokens = [], total_connector_weight = 0,
     max_conversion_fee = 0, conversion_fee = 0, conversions_enabled = False,
     connectors = (\<lambda>_. unset_connector)\<rparr>"

section \<open>Fee policy\<close>

text \<open>
  \<^verbatim>\<open>getFinalAmount\<close> is an external method with two \<^verbatim>\<open>int\<close> arguments. The ratio
  and the divisor are both built from the class constant \<^verbatim>\<open>_MAX_CONVERSION_FEE\<close>, not
  from the stored \<^verbatim>\<open>_max_conversion_fee\<close>. Python's \<^verbatim>\<open>//\<close> rounds towards minus
  infinity, as \<^const>\<open>divide\<close> on \<^typ>\<open>int\<close> does. With a negative magnitude
  \<^verbatim>\<open>**\<close> leaves the integers: the method returns a float, or raises when the ratio is
  0 or the amount is too large for a float. That case is the result \<^const>\<open>None\<close>; an
  integer result \<open>r\<close> is \<open>Some r\<close>.
\<close>

definition getFinalAmount :: "converter \<Rightarrow> int \<Rightarrow> int \<Rightarrow> int option" where
  "getFinalAmount s amount magnitude =
     (let final_ratio = MAX_CONVERSION_FEE - conversion_fee s
      in if magnitude < 0 then None
         else Some (amount * final_ratio ^ nat magnitude
                      div MAX_CONVERSION_FEE ^ nat magnitude))"

text \<open>
  The formula as the specification words it, with the installed ceiling as the
  denominator and a magnitude of 1 or 2. It is compared with \<^const>\<open>getFinalAmount\<close>
  below.
\<close>

definition finalAmount_spec :: "int \<Rightarrow> nat \<Rightarrow> int \<Rightarrow> int \<Rightarrow> int" where
  "finalAmount_spec rawAmount magnitude conversionFee maxConversionFee =
     (let ratio = maxConversionFee - conversionFee
      in rawAmount * ratio ^ magnitude div maxConversionFee ^ magnitude)"

section \<open>The host: everything the converter calls but does not define\<close>

text \<open>
  The converter inherits from classes and imports helpers that are not part of the two
  source files, and it calls other contracts. Those are parameters of the model, one
  field per collaborator:
  \<^item> \<open>msg_sender\<close>, \<open>self_address\<close>: \<^verbatim>\<open>self.msg.sender\<close>, \<^verbatim>\<open>self.address\<close>;
  \<^item> \<open>owner\<close>, \<open>manager\<close>: what \<^verbatim>\<open>getOwner()\<close> and the manager role resolve to;
  \<^item> \<open>token\<close>: \<^verbatim>\<open>self._token.get()\<close>, the governed flexible token kept by the parent
    class \<^verbatim>\<open>FlexibleTokenController\<close>;
  \<^item> \<open>active\<close>: \<^verbatim>\<open>self._is_active()\<close> of the same parent class;
  \<^item> \<open>valid_address\<close>: \<^verbatim>\<open>is_valid_address\<close> of the utility module;
  \<^item> \<open>totalSupply\<close>, \<open>issue\<close>, \<open>destroy\<close>: the flexible token contract;
  \<^item> \<open>balanceOf\<close>, \<open>transfer\<close>: the token contract at the given address, for the
    converter's own holdings;
  \<^item> \<open>registry_getAddress\<close>: \<^verbatim>\<open>getAddress(SCORE_REGISTRY)\<close> on the registry contract at
    the given address;
  \<^item> the three functions of the \<^verbatim>\<open>formula\<close> module.
  The state of the other contracts is a value of the type variable \<open>'w\<close>. A call to
  another contract that fails, and a formula that rejects its arguments, return
  \<^const>\<open>None\<close>.
\<close>

record 'w host =
  msg_sender :: address
  self_address :: address
  owner :: address
  manager :: address
  token :: address
  active :: bool
  valid_address :: "address \<Rightarrow> bool"
  totalSupply :: "'w \<Rightarrow> int"
  balanceOf :: "address \<Rightarrow> 'w \<Rightarrow> int"
  issue :: "address \<Rightarrow> int \<Rightarrow> 'w \<Rightarrow> 'w option"
  destroy :: "address \<Rightarrow> int \<Rightarrow> 'w \<Rightarrow> 'w option"
  transfer :: "address \<Rightarrow> address \<Rightarrow> int \<Rightarrow> 'w \<Rightarrow> 'w option"
  registry_getAddress :: "address option \<Rightarrow> address option"
  calculate_purchase_return :: "int \<Rightarrow> int \<Rightarrow> int \<Rightarrow> int \<Rightarrow> int option"
  calculate_sale_return :: "int \<Rightarrow> int \<Rightarrow> int \<Rightarrow> int \<Rightarrow> int option"
  calculate_cross_connector_return :: "int \<Rightarrow> int \<Rightarrow> int \<Rightarrow> int \<Rightarrow> int \<Rightarrow> int option"

text \<open>
  Modelled from the spec: \<^verbatim>\<open>safe_sub\<close> of the utility module, which is not in the
  sources. The specification asks that the difference never go below zero and that an
  underflow abort the request.
\<close>

definition safe_sub :: "int \<Rightarrow> int \<Rightarrow> error + int" where
  "safe_sub a b = (if a - b < 0 then Inl SubtractionUnderflow else Inr (a - b))"

text \<open>
  Modelled from the spec: \<^verbatim>\<open>require_positive_value\<close> of the utility module (a value
  must be strictly positive).
\<close>

definition require_positive_value :: "int \<Rightarrow> error + unit" where
  "require_positive_value v = (if 0 < v then Inr () else Inl NotPositiveValue)"

text \<open>
  Modelled from the spec: the role checks of the parent class \<^verbatim>\<open>Managed\<close> (an
  operation requires the owner, or the owner or the manager).
\<close>

definition require_owner_only :: "'w host \<Rightarrow> error + unit" where
  "require_owner_only h = (if msg_sender h = owner h then Inr () else Inl NotOwner)"

definition require_owner_or_manager_only :: "'w host \<Rightarrow> error + unit" where
  "require_owner_or_manager_only h =
     (if msg_sender h = owner h \<or> msg_sender h = manager h then Inr ()
      else Inl NotOwnerOrManager)"

text \<open>
  A write through the \<^verbatim>\<open>Connector\<close> wrapper: \<^verbatim>\<open>self._connectors[a].field.set(v)\<close>
  changes one field of the connector stored under \<open>a\<close>.
\<close>

definition connector_upd :: "address \<Rightarrow> (connector \<Rightarrow> connector) \<Rightarrow> converter \<Rightarrow> converter" where
  "connector_upd a f s = s\<lparr>connectors := (connectors s)(a := f (connectors s a))\<rparr>"

section \<open>Read-only operations\<close>

definition getConnectorBalance :: "'w host \<Rightarrow> converter \<Rightarrow> 'w \<Rightarrow> address \<Rightarrow> error + int" where
  "getConnectorBalance h s w connectorToken =
     (if \<not> is_set (connectors s connectorToken) then Inl InvalidConnector
      else let connector = connectors s connectorToken
           in if is_virtual_balance_enabled connector then Inr (virtual_balance connector)
              else Inr (balanceOf h connectorToken w))"

text \<open>
  The dictionary \<^verbatim>\<open>{'amount': .., 'fee': ..}\<close> is the pair (amount, fee). The three
  quotes call \<^verbatim>\<open>getFinalAmount\<close> with the literals 1 and 2, so its branch for a result
  outside the integers is never taken here.
\<close>

definition get_purchase_return ::
  "'w host \<Rightarrow> converter \<Rightarrow> 'w \<Rightarrow> address \<Rightarrow> int \<Rightarrow> bool \<Rightarrow> error + int \<times> int" where
  "get_purchase_return h s w connector_token amount from_conversion =
     (if \<not> active h then Inl NotActive
      else if \<not> is_set (connectors s connector_token) then Inl InvalidConnector
      else let connector = connectors s connector_token
       in if \<not> is_purchase_enabled connector then Inl PurchaseNotEnabled
          else let token_supply = totalSupply h w
           in (case getConnectorBalance h s w connector_token of
                 Inl e \<Rightarrow> Inl e
               | Inr balance \<Rightarrow>
                  (let connector_balance =
                         (if from_conversion then balance - amount else balance)
                   in (case calculate_purchase_return h token_supply connector_balance
                              (weight connector) amount of
                         None \<Rightarrow> Inl FormulaFailure
                       | Some calculated_amount \<Rightarrow>
                          (case getFinalAmount s calculated_amount 1 of
                              None \<Rightarrow> Inl NonIntegerAmount
                            | Some final_amount \<Rightarrow>
                               (case safe_sub calculated_amount final_amount of
                                  Inl e \<Rightarrow> Inl e
                                | Inr fee \<Rightarrow> Inr (final_amount, fee)))))))"

definition get_sale_return ::
  "'w host \<Rightarrow> converter \<Rightarrow> 'w \<Rightarrow> address \<Rightarrow> int \<Rightarrow> error + int \<times> int" where
  "get_sale_return h s w connector_token amount =
     (if \<not> active h then Inl NotActive
      else if \<not> is_set (connectors s connector_token) then Inl InvalidConnector
      else let connector = connectors s connector_token;
               token_supply = totalSupply h w
       in (case getConnectorBalance h s w connector_token of
             Inl e \<Rightarrow> Inl e
           | Inr connector_balance \<Rightarrow>
              (case calculate_sale_return h token_supply connector_balance
                      (weight connector) amount of
                 None \<Rightarrow> Inl FormulaFailure
               | Some calculated_amount \<Rightarrow>
                  (case getFinalAmount s calculated_amount 1 of
                      None \<Rightarrow> Inl NonIntegerAmount
                    | Some final_amount \<Rightarrow>
                       (case safe_sub calculated_amount final_amount of
                          Inl e \<Rightarrow> Inl e
                        | Inr fee \<Rightarrow> Inr (final_amount, fee))))))"

definition get_cross_connector_return ::
  "'w host \<Rightarrow> converter \<Rightarrow> 'w \<Rightarrow> address \<Rightarrow> address \<Rightarrow> int \<Rightarrow> bool \<Rightarrow> error + int \<times> int" where
  "get_cross_connector_return h s w from_token to_token amount from_conversion =
     (if \<not> active h then Inl NotActive
      else if \<not> is_set (connectors s from_token) then Inl InvalidConnector
      else if \<not> is_set (connectors s to_token) then Inl InvalidConnector
      else let from_connector = connectors s from_token;
               to_connector = connectors s to_token
       in if \<not> is_purchase_enabled to_connector then Inl PurchaseNotEnabled
          else (case getConnectorBalance h s w from_token of
                  Inl e \<Rightarrow> Inl e
                | Inr from_balance \<Rightarrow>
                   (let from_connector_balance =
                          (if from_conversion then from_balance - amount else from_balance)
                    in (case getConnectorBalance h s w to_token of
                          Inl e \<Rightarrow> Inl e
                        | Inr to_connector_balance \<Rightarrow>
                           (case calculate_cross_connector_return h from_connector_balance
                                   (weight from_connector) to_connector_balance
                                   (weight to_connector) amount of
                              None \<Rightarrow> Inl FormulaFailure
                            | Some calculated_amount \<Rightarrow>
                               (case getFinalAmount s calculated_amount 2 of
                                   None \<Rightarrow> Inl NonIntegerAmount
                                 | Some final_amount \<Rightarrow>
                                    (case safe_sub calculated_amount final_amount of
                                       Inl e \<Rightarrow> Inl e
                                     | Inr fee \<Rightarrow> Inr (final_amount, fee))))))))"

definition getReturn ::
  "'w host \<Rightarrow> converter \<Rightarrow> 'w \<Rightarrow> address \<Rightarrow> address \<Rightarrow> int \<Rightarrow> error + int \<times> int" where
  "getReturn h s w fromToken toToken amount =
     (if fromToken = toToken then Inl SameToken
      else if toToken = token h then get_purchase_return h s w fromToken amount False
      else if fromToken = token h then get_sale_return h s w toToken amount
      else get_cross_connector_return h s w fromToken toToken amount False)"

section \<open>Conversions\<close>

text \<open>
  A conversion writes storage, calls other contracts and may revert in between. Its
  result records how far it came: \<open>Reverted e s w\<close> carries the converter storage and
  the state of the other contracts at the moment the exception \<open>e\<close> was raised;
  \<open>Returned r s w evs\<close> carries the return value, the final states and the event log.
  The platform's rollback of a reverted transaction is \<open>transact\<close>, further down.
\<close>

datatype ('a, 'w) outcome =
    Reverted error converter 'w
  | Returned 'a converter 'w "event list"

definition buy ::
  "'w host \<Rightarrow> converter \<Rightarrow> 'w \<Rightarrow> address \<Rightarrow> address \<Rightarrow> int \<Rightarrow> int \<Rightarrow> (int, 'w) outcome" where
  "buy h s w trader connector_token amount min_return =
     (case get_purchase_return h s w connector_token amount True of
        Inl e \<Rightarrow> Reverted e s w
      | Inr (return_amount, fee_amount) \<Rightarrow>
          if \<not> min_return \<le> return_amount then Reverted ReturnLessThanMinimum s w
          else
            (let connector = connectors s connector_token;
                 s1 = (if is_virtual_balance_enabled connector
                       then connector_upd connector_token
                              (\<lambda>c. c\<lparr>virtual_balance := virtual_balance c + amount\<rparr>) s
                       else s);
                 flexible_token_address = token h
             in (case issue h trader return_amount w of
                   None \<Rightarrow> Reverted ExternalCallFailure s1 w
                 | Some w1 \<Rightarrow>
                    (case getConnectorBalance h s1 w1 connector_token of
                       Inl e \<Rightarrow> Reverted e s1 w1
                     | Inr balance \<Rightarrow>
                         Returned return_amount s1 w1
                           [Conversion connector_token flexible_token_address trader amount
                              return_amount fee_amount,
                            PriceDataUpdate connector_token (totalSupply h w1) balance
                              (weight (connectors s1 connector_token))]))))"

definition sell ::
  "'w host \<Rightarrow> converter \<Rightarrow> 'w \<Rightarrow> address \<Rightarrow> address \<Rightarrow> int \<Rightarrow> int \<Rightarrow> (int, 'w) outcome" where
  "sell h s w trader connector_token amount min_return =
     (case get_sale_return h s w connector_token amount of
        Inl e \<Rightarrow> Reverted e s w
      | Inr (return_amount, fee_amount) \<Rightarrow>
          if \<not> min_return \<le> return_amount then Reverted ReturnLessThanMinimum s w
          else
            (let flexible_token_address = token h;
                 token_supply = totalSupply h w
             in (case getConnectorBalance h s w connector_token of
                   Inl e \<Rightarrow> Reverted e s w
                 | Inr connector_balance \<Rightarrow>
                     if \<not> (return_amount < connector_balance \<or>
                            (return_amount = connector_balance \<and> amount = token_supply))
                     then Reverted ConnectorBalanceCondition s w
                     else
                       (let connector = connectors s connector_token
                        in (case (if is_virtual_balance_enabled connector
                                  then (case safe_sub (virtual_balance connector) return_amount of
                                          Inl e \<Rightarrow> Inl e
                                        | Inr v \<Rightarrow>
                                            Inr (connector_upd connector_token
                                                   (\<lambda>c. c\<lparr>virtual_balance := v\<rparr>) s))
                                  else Inr s) of
                              Inl e \<Rightarrow> Reverted e s w
                            | Inr s1 \<Rightarrow>
                               (case destroy h (self_address h) amount w of
                                  None \<Rightarrow> Reverted ExternalCallFailure s1 w
                                | Some w1 \<Rightarrow>
                                   (case transfer h connector_token trader return_amount w1 of
                                      None \<Rightarrow> Reverted ExternalCallFailure s1 w1
                                    | Some w2 \<Rightarrow>
                                       (case getConnectorBalance h s1 w2 connector_token of
                                          Inl e \<Rightarrow> Reverted e s1 w2
                                        | Inr balance \<Rightarrow>
                                            Returned return_amount s1 w2
                                              [Conversion flexible_token_address connector_token
                                                 trader amount return_amount fee_amount,
                                               PriceDataUpdate connector_token
                                                 (totalSupply h w2) balance
                                                 (weight (connectors s1 connector_token))]))))))))"

text \<open>
  In the cross path the two virtual balances are written first, and the balance of the
  target connector is read and checked afterwards.
\<close>

definition convert_cross_connector ::
  "'w host \<Rightarrow> converter \<Rightarrow> 'w \<Rightarrow> address \<Rightarrow> address \<Rightarrow> address \<Rightarrow> int \<Rightarrow> int \<Rightarrow> (int, 'w) outcome" where
  "convert_cross_connector h s w trader from_token to_token amount min_return =
     (case get_cross_connector_return h s w from_token to_token amount True of
        Inl e \<Rightarrow> Reverted e s w
      | Inr (return_amount, fee_amount) \<Rightarrow>
          if \<not> min_return \<le> return_amount then Reverted ReturnLessThanMinimum s w
          else
            (let s1 = (if is_virtual_balance_enabled (connectors s from_token)
                       then connector_upd from_token
                              (\<lambda>c. c\<lparr>virtual_balance := virtual_balance c + amount\<rparr>) s
                       else s);
                 to_connector = connectors s1 to_token
             in (case (if is_virtual_balance_enabled to_connector
                       then (case safe_sub (virtual_balance to_connector) return_amount of
                               Inl e \<Rightarrow> Inl e
                             | Inr v \<Rightarrow>
                                 Inr (connector_upd to_token (\<lambda>c. c\<lparr>virtual_balance := v\<rparr>) s1))
                       else Inr s1) of
                   Inl e \<Rightarrow> Reverted e s1 w
                 | Inr s2 \<Rightarrow>
                    (case getConnectorBalance h s2 w to_token of
                       Inl e \<Rightarrow> Reverted e s2 w
                     | Inr to_connector_balance \<Rightarrow>
                         if \<not> return_amount < to_connector_balance
                         then Reverted ConnectorBalanceCondition s2 w
                         else
                           (case transfer h to_token trader return_amount w of
                              None \<Rightarrow> Reverted ExternalCallFailure s2 w
                            | Some w1 \<Rightarrow>
                               (let token_supply = totalSupply h w1
                                in (case getConnectorBalance h s2 w1 from_token of
                                      Inl e \<Rightarrow> Reverted e s2 w1
                                    | Inr from_balance \<Rightarrow>
                                       (case getConnectorBalance h s2 w1 to_token of
                                          Inl e \<Rightarrow> Reverted e s2 w1
                                        | Inr to_balance \<Rightarrow>
                                            Returned return_amount s2 w1
                                              [Conversion from_token to_token trader amount
                                                 return_amount fee_amount,
                                               PriceDataUpdate from_token token_supply
                                                 from_balance
                                                 (weight (connectors s2 from_token)),
                                               PriceDataUpdate to_token token_supply
                                                 to_balance
                                                 (weight (connectors s2 to_token))]))))))))"

definition convert ::
  "'w host \<Rightarrow> converter \<Rightarrow> 'w \<Rightarrow> address \<Rightarrow> address \<Rightarrow> address \<Rightarrow> int \<Rightarrow> int \<Rightarrow> (int, 'w) outcome" where
  "convert h s w trader from_token to_token amount min_return =
     (if \<not> conversions_enabled s then Reverted ConversionsNotEnabled s w
      else (case require_positive_value min_return of
              Inl e \<Rightarrow> Reverted e s w
            | Inr _ \<Rightarrow>
                if from_token = to_token then Reverted SameToken s w
                else (let flexible_token = token h
                      in if to_token = flexible_token
                         then buy h s w trader from_token amount min_return
                         else if from_token = flexible_token
                         then sell h s w trader to_token amount min_return
                         else convert_cross_connector h s w trader from_token to_token
                                amount min_return)))"

section \<open>Administration\<close>

text \<open>
  In each of these operations every check comes before the first write, so a result
  \<open>Inl e\<close> stands for a revert with the storage as it was.
\<close>

definition addConnector ::
  "'w host \<Rightarrow> converter \<Rightarrow> address \<Rightarrow> int \<Rightarrow> bool \<Rightarrow> error + converter" where
  "addConnector h s tok wgt enableVirtualBalance =
     (case require_owner_only h of
        Inl e \<Rightarrow> Inl e
      | Inr _ \<Rightarrow>
          if active h then Inl NotInactive
          else if \<not> valid_address h tok then Inl InvalidAddress
          else if self_address h = tok then Inl TokenIsThis
          else if \<not> (0 < wgt \<and> wgt \<le> MAX_WEIGHT) then Inl InvalidConnectorWeight
          else if \<not> token h \<noteq> tok then Inl TokenIsFlexibleToken
          else if is_set (connectors s tok) then Inl TokenAlreadySet
          else if \<not> total_connector_weight s + wgt \<le> MAX_WEIGHT then Inl TotalWeightOverflow
          else Inr (s\<lparr>connectors := (connectors s)(tok :=
                         (connectors s tok)\<lparr>virtual_balance := 0, weight := wgt,
                            is_virtual_balance_enabled := enableVirtualBalance,
                            is_purchase_enabled := True, is_set := True\<rparr>),
                       connector_tokens := connector_tokens s @ [tok],
                       total_connector_weight := total_connector_weight s + wgt\<rparr>))"

definition updateConnector ::
  "'w host \<Rightarrow> converter \<Rightarrow> address \<Rightarrow> int \<Rightarrow> bool \<Rightarrow> int \<Rightarrow> error + converter" where
  "updateConnector h s connectorToken wgt enableVirtualBalance virtualBalance =
     (case require_owner_only h of
        Inl e \<Rightarrow> Inl e
      | Inr _ \<Rightarrow>
          if \<not> is_set (connectors s connectorToken) then Inl InvalidConnector
          else if \<not> (0 < wgt \<and> wgt \<le> MAX_WEIGHT) then Inl InvalidConnectorWeight
          else
            (let connector = connectors s connectorToken;
                 new_total_weight = total_connector_weight s - weight connector + wgt
             in if \<not> new_total_weight \<le> MAX_WEIGHT then Inl TotalWeightOverflow
                else Inr (s\<lparr>total_connector_weight := new_total_weight,
                             connectors := (connectors s)(connectorToken :=
                               connector\<lparr>weight := wgt,
                                 is_virtual_balance_enabled := enableVirtualBalance,
                                 virtual_balance := virtualBalance\<rparr>)\<rparr>)))"

definition disableConnectorPurchases ::
  "'w host \<Rightarrow> converter \<Rightarrow> address \<Rightarrow> bool \<Rightarrow> error + converter" where
  "disableConnectorPurchases h s connectorToken disable =
     (case require_owner_only h of
        Inl e \<Rightarrow> Inl e
      | Inr _ \<Rightarrow>
          if \<not> is_set (connectors s connectorToken) then Inl InvalidConnector
          else Inr (connector_upd connectorToken
                      (\<lambda>c. c\<lparr>is_purchase_enabled := \<not> disable\<rparr>) s))"

definition updateRegistry :: "'w host \<Rightarrow> converter \<Rightarrow> error + converter" where
  "updateRegistry h s =
     (if \<not> (allow_registry_update s \<or> msg_sender h = owner h)
      then Inl RegistryUpdateNotAllowed
      else (case registry_getAddress h (registry s) of
              None \<Rightarrow> Inl ExternalCallFailure
            | Some new_registry \<Rightarrow>
                if \<not> valid_address h new_registry then Inl InvalidAddress
                else if \<not> Some new_registry \<noteq> registry s then Inl SameRegistry
                else Inr (s\<lparr>prev_registry := registry s, registry := Some new_registry\<rparr>)))"

definition restoreRegistry :: "'w host \<Rightarrow> converter \<Rightarrow> error + converter" where
  "restoreRegistry h s =
     (case require_owner_or_manager_only h of
        Inl e \<Rightarrow> Inl e
      | Inr _ \<Rightarrow> Inr (s\<lparr>registry := prev_registry s, allow_registry_update := False\<rparr>))"

definition disableRegistryUpdate :: "'w host \<Rightarrow> converter \<Rightarrow> bool \<Rightarrow> error + converter" where
  "disableRegistryUpdate h s disable =
     (case require_owner_or_manager_only h of
        Inl e \<Rightarrow> Inl e
      | Inr _ \<Rightarrow> Inr (s\<lparr>allow_registry_update := \<not> disable\<rparr>))"

definition disableConversions ::
  "'w host \<Rightarrow> converter \<Rightarrow> bool \<Rightarrow> error + converter \<times> event list" where
  "disableConversions h s disable =
     (case require_owner_or_manager_only h of
        Inl e \<Rightarrow> Inl e
      | Inr _ \<Rightarrow>
          if conversions_enabled s = disable
          then (let enable = \<not> disable
                in Inr (s\<lparr>conversions_enabled := enable\<rparr>, [ConversionsEnable enable]))
          else Inr (s, []))"

definition setConversionFee ::
  "'w host \<Rightarrow> converter \<Rightarrow> int \<Rightarrow> error + converter \<times> event list" where
  "setConversionFee h s conversionFee =
     (case require_owner_or_manager_only h of
        Inl e \<Rightarrow> Inl e
      | Inr _ \<Rightarrow>
          if \<not> (0 \<le> conversionFee \<and> conversionFee \<le> max_conversion_fee s)
          then Inl InvalidConversionFee
          else Inr (s\<lparr>conversion_fee := conversionFee\<rparr>,
                    [ConversionFeeUpdate (conversion_fee s) conversionFee]))"

text \<open>
  \<^verbatim>\<open>on_install\<close>. The parent's initialiser, which stores the governed token, is not in
  the sources; the model reads the token from the host.
\<close>

definition on_install ::
  "'w host \<Rightarrow> converter \<Rightarrow> address \<Rightarrow> int \<Rightarrow> address \<Rightarrow> int \<Rightarrow> error + converter" where
  "on_install h s reg maxConversionFee connectorToken connectorWeight =
     (if \<not> valid_address h reg then Inl InvalidAddress
      else if \<not> (0 \<le> maxConversionFee \<and> maxConversionFee \<le> MAX_CONVERSION_FEE)
      then Inl InvalidMaxConversionFee
      else
        (let s1 = s\<lparr>allow_registry_update := True, registry := Some reg,
                     prev_registry := Some reg, conversions_enabled := True,
                     max_conversion_fee := maxConversionFee\<rparr>
         in if valid_address h connectorToken
            then addConnector h s1 connectorToken connectorWeight False
            else Inr s1))"

section \<open>Transactions\<close>

text \<open>
  The external methods of the converter that write its storage, as requests. A
  conversion request stands for the call of \<^verbatim>\<open>_convert\<close> that \<^verbatim>\<open>tokenFallback\<close>
  makes once it has decoded its payload.
\<close>

datatype call =
    AddConnector address int bool
  | UpdateConnector address int bool int
  | DisableConnectorPurchases address bool
  | UpdateRegistry
  | RestoreRegistry
  | DisableRegistryUpdate bool
  | DisableConversions bool
  | SetConversionFee int
  | Convert address address address int int

text \<open>
  One transaction: the platform keeps the writes of a call that returns and discards
  those of a call that reverts.
\<close>

definition commit :: "converter \<times> 'w \<Rightarrow> error + converter \<Rightarrow> converter \<times> 'w" where
  "commit st r = (case r of Inl e \<Rightarrow> st | Inr s' \<Rightarrow> (s', snd st))"

fun transact :: "'w host \<Rightarrow> call \<Rightarrow> converter \<times> 'w \<Rightarrow> converter \<times> 'w" where
  "transact h (AddConnector a wgt evb) (s, w) = commit (s, w) (addConnector h s a wgt evb)"
| "transact h (UpdateConnector a wgt evb vb) (s, w) =
     commit (s, w) (updateConnector h s a wgt evb vb)"
| "transact h (DisableConnectorPurchases a d) (s, w) =
     commit (s, w) (disableConnectorPurchases h s a d)"
| "transact h UpdateRegistry (s, w) = commit (s, w) (updateRegistry h s)"
| "transact h RestoreRegistry (s, w) = commit (s, w) (restoreRegistry h s)"
| "transact h (DisableRegistryUpdate d) (s, w) = commit (s, w) (disableRegistryUpdate h s d)"
| "transact h (DisableConversions d) (s, w) =
     commit (s, w) (map_sum id fst (disableConversions h s d))"
| "transact h (SetConversionFee f) (s, w) =
     commit (s, w) (map_sum id fst (setConversionFee h s f))"
| "transact h (Convert trader from_token to_token amount min_return) (s, w) =
     (case convert h s w trader from_token to_token amount min_return of
        Reverted e s' w' \<Rightarrow> (s, w)
      | Returned r s' w' evs \<Rightarrow> (s', w'))"

text \<open>A history: each request comes with the host it runs in.\<close>

fun run :: "('w host \<times> call) list \<Rightarrow> converter \<times> 'w \<Rightarrow> converter \<times> 'w" where
  "run [] st = st"
| "run ((h, c) # cs) st = run cs (transact h c st)"

section \<open>A concrete host and concrete states\<close>

text \<open>
  A small world to run the model in: the flexible token's supply and the converter's
  holdings of each connector token. The token contracts move amounts and refuse to
  overdraw. The registry at address \<open>a\<close> forwards to \<open>a + 1\<close>. The formulas are the
  linear cases of the curve (a connector of full weight, two connectors of equal
  weight); they stand in for the \<^verbatim>\<open>formula\<close> module, which is a parameter here.
\<close>

record ledger =
  flexible_supply :: int
  holdings :: "address \<Rightarrow> int"

definition example_host :: "address \<Rightarrow> bool \<Rightarrow> ledger host" where
  "example_host sender is_active =
     \<lparr>msg_sender = sender, self_address = 3, owner = 1, manager = 2, token = 10,
      active = is_active,
      valid_address = (\<lambda>a. a \<noteq> 0),
      totalSupply = flexible_supply,
      balanceOf = (\<lambda>a w. holdings w a),
      issue = (\<lambda>to amount w. Some (w\<lparr>flexible_supply := flexible_supply w + amount\<rparr>)),
      destroy = (\<lambda>from amount w.
         if amount \<le> flexible_supply w
         then Some (w\<lparr>flexible_supply := flexible_supply w - amount\<rparr>) else None),
      transfer = (\<lambda>a to amount w.
         if amount \<le> holdings w a
         then Some (w\<lparr>holdings := (holdings w)(a := holdings w a - amount)\<rparr>) else None),
      registry_getAddress = (\<lambda>r. case r of None \<Rightarrow> None | Some a \<Rightarrow> Some (a + 1)),
      calculate_purchase_return = (\<lambda>sup bal wgt amount.
         if 0 < sup \<and> 0 < bal then Some (sup * amount div bal) else None),
      calculate_sale_return = (\<lambda>sup bal wgt amount.
         if 0 < sup \<and> 0 < bal \<and> amount \<le> sup then Some (bal * amount div sup) else None),
      calculate_cross_connector_return = (\<lambda>from_bal from_wgt to_bal to_wgt amount.
         if 0 < from_bal \<and> 0 < to_bal then Some (to_bal * amount div (from_bal + amount))
         else None)\<rparr>"

definition example_ledger :: ledger where
  "example_ledger = \<lparr>flexible_supply = 1000, holdings = (\<lambda>_. 0)(20 := 500, 21 := 1000)\<rparr>"

text \<open>A converter installed with a ceiling of 3 percent and no connector.\<close>

definition installed_3pc :: converter where
  "installed_3pc = blank_storage\<lparr>allow_registry_update := True, registry := Some 100,
     prev_registry := Some 100, conversions_enabled := True, max_conversion_fee := 30000\<rparr>"

text \<open>The same converter with its fee set to 1 percent.\<close>

definition fee_1pc :: converter where
  "fee_1pc = installed_3pc\<lparr>conversion_fee := 10000\<rparr>"

text \<open>
  The converter installed with a first connector, token 20 at 60 percent, and three
  requests of the owner: a second connector at 30 percent, the first raised to 70
  percent, a third connector that no longer fits.
\<close>

definition one_connector :: converter where
  "one_connector = installed_3pc\<lparr>connectors := (connectors installed_3pc)(20 :=
       \<lparr>virtual_balance = 0, weight = 600000, is_virtual_balance_enabled = False,
        is_purchase_enabled = True, is_set = True\<rparr>),
     connector_tokens := [20], total_connector_weight := 600000\<rparr>"

definition weight_requests :: "(ledger host \<times> call) list" where
  "weight_requests =
     [(example_host 1 False, AddConnector 21 300000 True),
      (example_host 1 False, UpdateConnector 20 700000 False 0),
      (example_host 1 False, AddConnector 22 500000 False)]"

text \<open>
  A converter with two connectors of 50 percent each, both on virtual balances (400 and
  1000), and the requests of the owner that lead to it from the installed converter.
\<close>

definition two_virtual :: converter where
  "two_virtual = installed_3pc\<lparr>connectors := (connectors installed_3pc)
       (20 := \<lparr>virtual_balance = 400, weight = 500000, is_virtual_balance_enabled = True,
               is_purchase_enabled = True, is_set = True\<rparr>,
        21 := \<lparr>virtual_balance = 1000, weight = 500000, is_virtual_balance_enabled = True,
               is_purchase_enabled = True, is_set = True\<rparr>),
     connector_tokens := [20, 21], total_connector_weight := 1000000\<rparr>"

definition virtual_requests :: "(ledger host \<times> call) list" where
  "virtual_requests =
     [(example_host 1 False, AddConnector 20 500000 True),
      (example_host 1 False, AddConnector 21 500000 True),
      (example_host 1 True, UpdateConnector 20 500000 True 400),
      (example_host 1 True, UpdateConnector 21 500000 True 1000)]"

text \<open>
  A host whose sale formula hands out the sold amount one to one: it lets a sale reach
  the whole balance of a connector while tokens remain outstanding.
\<close>

definition generous_host :: "ledger host" where
  "generous_host = (example_host 5 True)\<lparr>calculate_sale_return :=
     (\<lambda>sup bal wgt amount. Some amount)\<rparr>"

text \<open>
  Requests that follow the disabling of purchases on connector 21: a stranger who tries
  to enable them again and is refused, an update of the connector by the owner, and a
  sale into the connector.
\<close>

definition purchase_requests :: "(ledger host \<times> call) list" where
  "purchase_requests =
     [(example_host 7 True, DisableConnectorPurchases 21 False),
      (example_host 1 True, UpdateConnector 21 500000 True 1000),
      (example_host 5 True, Convert 5 10 21 500 1)]"

section \<open>Predicates for the proofs\<close>

text \<open>The storage a conversion stopped with, whether it returned or reverted.\<close>

fun outcome_storage :: "('a, 'w) outcome \<Rightarrow> converter" where
  "outcome_storage (Reverted e s w) = s"
| "outcome_storage (Returned r s w evs) = s"

text \<open>
  Two storages that agree on everything except the virtual balances of connectors: what
  a conversion may change.
\<close>

definition only_virtual_balances_differ :: "converter \<Rightarrow> converter \<Rightarrow> bool" where
  "only_virtual_balances_differ s s' \<longleftrightarrow>
     allow_registry_update s' = allow_registry_update s \<and>
     prev_registry s' = prev_registry s \<and>
     registry s' = registry s \<and>
     connector_tokens s' = connector_tokens s \<and>
     total_connector_weight s' = total_connector_weight s \<and>
     max_conversion_fee s' = max_conversion_fee s \<and>
     conversion_fee s' = conversion_fee s \<and>
     conversions_enabled s' = conversions_enabled s \<and>
     (\<forall>a. weight (connectors s' a) = weight (connectors s a) \<and>
          is_virtual_balance_enabled (connectors s' a)
            = is_virtual_balance_enabled (connectors s a) \<and>
          is_purchase_enabled (connectors s' a) = is_purchase_enabled (connectors s a) \<and>
          is_set (connectors s' a) = is_set (connectors s a))"

text \<open>
  The bookkeeping of weights: the list of connector tokens has no duplicates and holds
  exactly the connectors that are set, and the stored total is the sum of their weights
  and at most the maximum.
\<close>

definition connector_inv :: "converter \<Rightarrow> bool" where
  "connector_inv s \<longleftrightarrow>
     distinct (connector_tokens s) \<and>
     set (connector_tokens s) = {a. is_set (connectors s a)} \<and>
     total_connector_weight s
       = sum_list (map (\<lambda>a. weight (connectors s a)) (connector_tokens s)) \<and>
     total_connector_weight s \<le> MAX_WEIGHT"

text \<open>Two storages with the same connector list, total, weights and presence flags.\<close>

definition weights_untouched :: "converter \<Rightarrow> converter \<Rightarrow> bool" where
  "weights_untouched s s' \<longleftrightarrow>
     connector_tokens s' = connector_tokens s \<and>
     total_connector_weight s' = total_connector_weight s \<and>
     (\<forall>a. weight (connectors s' a) = weight (connectors s a) \<and>
          is_set (connectors s' a) = is_set (connectors s a))"

text \<open>
  The storage with the purchase flag of one connector set, which is what
  \<open>disableConnectorPurchases\<close> writes, and an outcome with its storage mapped.
\<close>

definition set_purchase_enabled :: "address \<Rightarrow> bool \<Rightarrow> converter \<Rightarrow> converter" where
  "set_purchase_enabled c b = connector_upd c (\<lambda>x. x\<lparr>is_purchase_enabled := b\<rparr>)"

fun with_storage :: "(converter \<Rightarrow> converter) \<Rightarrow> ('a, 'w) outcome \<Rightarrow> ('a, 'w) outcome" where
  "with_storage f (Reverted e s w) = Reverted e (f s) w"
| "with_storage f (Returned r s w evs) = Returned r (f s) w evs"

section \<open>Arithmetic of the fee\<close>

lemma int_div_less: 
  assumes "(a::int) < b * m" and "0 < m"
  shows "a div m < b"
proof (rule ccontr)
  assume "\<not> a div m < b"
  then have "b \<le> a div m" by simp
  with assms(2) have "b * m \<le> (a div m) * m" by (simp add: mult_right_mono)
  moreover have "(a div m) * m \<le> a"
  proof -
    have "(a div m) * m + a mod m = a" by simp
    moreover have "0 \<le> a mod m" using assms(2) by simp
    ultimately show ?thesis by linarith
  qed
  ultimately show False using assms(1) by linarith
qed

lemma int_div_le: "(a::int) \<le> b * m \<Longrightarrow> 0 < m \<Longrightarrow> a div m \<le> b"
  using zdiv_mono1 [of a "b * m" m] by simp

lemma getFinalAmount_1:
  "getFinalAmount s raw 1 = Some (raw * (1000000 - conversion_fee s) div 1000000)"
  by (simp add: getFinalAmount_def MAX_CONVERSION_FEE_def)

lemma getFinalAmount_negative: "magnitude < 0 \<Longrightarrow> getFinalAmount s raw magnitude = None"
  by (simp add: getFinalAmount_def)

lemma on_install_3pc:
  "on_install (example_host 1 False) blank_storage 100 30000 0 0 = Inr installed_3pc"
  by (simp add: on_install_def example_host_def installed_3pc_def MAX_CONVERSION_FEE_def)

lemma setConversionFee_1pc:
  "setConversionFee (example_host 2 False) installed_3pc 10000
     = Inr (fee_1pc, [ConversionFeeUpdate 0 10000])"
  by (simp add: setConversionFee_def require_owner_or_manager_only_def example_host_def
      installed_3pc_def fee_1pc_def blank_storage_def)

section \<open>What a conversion leaves alone\<close>

lemma ovbd_refl: "only_virtual_balances_differ s s"
  by (simp add: only_virtual_balances_differ_def)

lemma ovbd_upd:
  "only_virtual_balances_differ s s1 \<Longrightarrow>
   only_virtual_balances_differ s (connector_upd a (\<lambda>c. c\<lparr>virtual_balance := g c\<rparr>) s1)"
  by (simp add: only_virtual_balances_differ_def connector_upd_def)

lemma buy_frame: "only_virtual_balances_differ s (outcome_storage (buy h s w trader a amount m))"
  by (auto simp: buy_def Let_def ovbd_refl ovbd_upd split: sum.splits option.splits prod.splits)

lemma sell_frame: "only_virtual_balances_differ s (outcome_storage (sell h s w trader a amount m))"
  by (auto simp: sell_def Let_def ovbd_refl ovbd_upd split: sum.splits option.splits prod.splits if_splits)

lemma cross_frame:
  "only_virtual_balances_differ s
     (outcome_storage (convert_cross_connector h s w trader a b amount m))"
  by (auto simp: convert_cross_connector_def Let_def ovbd_refl ovbd_upd
      split: sum.splits option.splits prod.splits if_splits)

lemma convert_frame:
  "only_virtual_balances_differ s (outcome_storage (convert h s w trader a b amount m))"
  by (simp add: convert_def Let_def ovbd_refl buy_frame sell_frame cross_frame
      split: sum.splits)

section \<open>The total weight is the sum of the weights\<close>

lemma weights_untouched_inv:
  "weights_untouched s s' \<Longrightarrow> connector_inv s \<Longrightarrow> connector_inv s'"
  by (simp add: weights_untouched_def connector_inv_def)

lemma ovbd_weights_untouched:
  "only_virtual_balances_differ s s' \<Longrightarrow> weights_untouched s s'"
  by (simp add: only_virtual_balances_differ_def weights_untouched_def)

lemma connector_inv_blank: "connector_inv blank_storage"
  by (simp add: connector_inv_def blank_storage_def unset_connector_def MAX_WEIGHT_def)

lemma addConnector_inv:
  assumes "connector_inv s" and "addConnector h s a wgt evb = Inr s'"
  shows "connector_inv s'"
proof -
  from assms(2) have fresh: "\<not> is_set (connectors s a)"
    and bound: "total_connector_weight s + wgt \<le> MAX_WEIGHT"
    and s': "s' = s\<lparr>connectors := (connectors s)(a :=
                         (connectors s a)\<lparr>virtual_balance := 0, weight := wgt,
                            is_virtual_balance_enabled := evb,
                            is_purchase_enabled := True, is_set := True\<rparr>),
                       connector_tokens := connector_tokens s @ [a],
                       total_connector_weight := total_connector_weight s + wgt\<rparr>"
    by (auto simp: addConnector_def split: sum.splits if_splits)
  from assms(1) fresh have notin: "a \<notin> set (connector_tokens s)"
    by (simp add: connector_inv_def)
  then have same: "map (\<lambda>x. weight (if x = a then c else connectors s x)) (connector_tokens s)
      = map (\<lambda>x. weight (connectors s x)) (connector_tokens s)" for c
    by (intro map_cong) auto
  from assms(1) notin bound show ?thesis
    unfolding s' connector_inv_def by (auto simp: same)
qed

lemma sum_list_upd_other:
  "a \<notin> set xs \<Longrightarrow> sum_list (map (f(a := v)) xs) = (sum_list (map f xs) :: int)"
  by (induction xs) auto

lemma sum_list_upd:
  "distinct xs \<Longrightarrow> a \<in> set xs \<Longrightarrow>
   sum_list (map (f(a := v)) xs) = sum_list (map f xs) - f a + (v::int)"
proof (induction xs)
  case Nil
  then show ?case by simp
next
  case (Cons x xs)
  show ?case
  proof (cases "x = a")
    case True
    with Cons.prems have "a \<notin> set xs" by simp
    then have "sum_list (map (f(a := v)) xs) = sum_list (map f xs)"
      by (rule sum_list_upd_other)
    with True show ?thesis by (simp del: fun_upd_apply add: fun_upd_same)
  next
    case False
    with Cons show ?thesis by (simp del: fun_upd_apply add: fun_upd_other)
  qed
qed

lemma updateConnector_inv:
  assumes "connector_inv s" and "updateConnector h s a wgt evb vb = Inr s'"
  shows "connector_inv s'"
proof -
  let ?new = "total_connector_weight s - weight (connectors s a) + wgt"
  from assms(2) have present: "is_set (connectors s a)"
    and bound: "?new \<le> MAX_WEIGHT"
    and s': "s' = s\<lparr>total_connector_weight := ?new,
                     connectors := (connectors s)(a :=
                       (connectors s a)\<lparr>weight := wgt,
                         is_virtual_balance_enabled := evb,
                         virtual_balance := vb\<rparr>)\<rparr>"
    by (auto simp: updateConnector_def Let_def split: sum.splits if_splits)
  from assms(1) present have mem: "a \<in> set (connector_tokens s)"
    and dist: "distinct (connector_tokens s)"
    by (simp_all add: connector_inv_def)
  let ?c = "(connectors s a)\<lparr>weight := wgt, is_virtual_balance_enabled := evb,
              virtual_balance := vb\<rparr>"
  have "(\<lambda>x. weight (((connectors s)(a := ?c)) x)) = (\<lambda>x. weight (connectors s x))(a := wgt)"
    by (auto simp: fun_eq_iff)
  then have sum: "sum_list (map (\<lambda>x. weight (((connectors s)(a := ?c)) x)) (connector_tokens s))
      = sum_list (map (\<lambda>x. weight (connectors s x)) (connector_tokens s))
        - weight (connectors s a) + wgt"
    using sum_list_upd [OF dist mem, of "\<lambda>x. weight (connectors s x)" wgt] by simp
  have set: "{x. is_set (((connectors s)(a := ?c)) x)} = {x. is_set (connectors s x)}"
    using present by auto
  from assms(1) bound show ?thesis
    unfolding s' connector_inv_def using sum set by simp
qed

lemma disableConnectorPurchases_untouched:
  "disableConnectorPurchases h s a d = Inr s' \<Longrightarrow> weights_untouched s s'"
  by (auto simp: disableConnectorPurchases_def connector_upd_def weights_untouched_def
      split: sum.splits if_splits)

lemma updateRegistry_untouched: "updateRegistry h s = Inr s' \<Longrightarrow> weights_untouched s s'"
  by (auto simp: updateRegistry_def weights_untouched_def split: option.splits if_splits)

lemma restoreRegistry_untouched: "restoreRegistry h s = Inr s' \<Longrightarrow> weights_untouched s s'"
  by (auto simp: restoreRegistry_def weights_untouched_def split: sum.splits)

lemma disableRegistryUpdate_untouched:
  "disableRegistryUpdate h s d = Inr s' \<Longrightarrow> weights_untouched s s'"
  by (auto simp: disableRegistryUpdate_def weights_untouched_def split: sum.splits)

lemma disableConversions_untouched:
  "disableConversions h s d = Inr (s', evs) \<Longrightarrow> weights_untouched s s'"
  by (auto simp: disableConversions_def weights_untouched_def Let_def
      split: sum.splits if_splits)

lemma setConversionFee_untouched:
  "setConversionFee h s f = Inr (s', evs) \<Longrightarrow> weights_untouched s s'"
  by (auto simp: setConversionFee_def weights_untouched_def split: sum.splits if_splits)

lemma transact_inv: "connector_inv s \<Longrightarrow> connector_inv (fst (transact h c (s, w)))"
proof (cases c)
  case (AddConnector a wgt evb)
  assume "connector_inv s"
  then show ?thesis using AddConnector
    by (auto simp: commit_def dest: addConnector_inv split: sum.splits)
next
  case (UpdateConnector a wgt evb vb)
  assume "connector_inv s"
  then show ?thesis using UpdateConnector
    by (auto simp: commit_def dest: updateConnector_inv split: sum.splits)
next
  case (DisableConnectorPurchases a d)
  assume "connector_inv s"
  then show ?thesis using DisableConnectorPurchases
    by (auto simp: commit_def split: sum.splits
        dest!: disableConnectorPurchases_untouched intro: weights_untouched_inv)
next
  case UpdateRegistry
  assume "connector_inv s"
  then show ?thesis using UpdateRegistry
    by (auto simp: commit_def split: sum.splits
        dest!: updateRegistry_untouched intro: weights_untouched_inv)
next
  case RestoreRegistry
  assume "connector_inv s"
  then show ?thesis using RestoreRegistry
    by (auto simp: commit_def split: sum.splits
        dest!: restoreRegistry_untouched intro: weights_untouched_inv)
next
  case (DisableRegistryUpdate d)
  assume "connector_inv s"
  then show ?thesis using DisableRegistryUpdate
    by (auto simp: commit_def split: sum.splits
        dest!: disableRegistryUpdate_untouched intro: weights_untouched_inv)
next
  case (DisableConversions d)
  assume "connector_inv s"
  then show ?thesis using DisableConversions
    by (cases "disableConversions h s d")
       (auto simp: commit_def dest!: disableConversions_untouched intro: weights_untouched_inv)
next
  case (SetConversionFee f)
  assume "connector_inv s"
  then show ?thesis using SetConversionFee
    by (cases "setConversionFee h s f")
       (auto simp: commit_def dest!: setConversionFee_untouched intro: weights_untouched_inv)
next
  case (Convert trader a b amount m)
  assume inv: "connector_inv s"
  show ?thesis
  proof (cases "convert h s w trader a b amount m")
    case (Reverted e s' w')
    with inv Convert show ?thesis by simp
  next
    case (Returned r s' w' evs)
    with convert_frame [of s h w trader a b amount m]
    have "weights_untouched s s'" by (simp add: ovbd_weights_untouched)
    with inv Returned Convert show ?thesis by (simp add: weights_untouched_inv)
  qed
qed

lemma run_inv: "connector_inv (fst st) \<Longrightarrow> connector_inv (fst (run cs st))"
proof (induction cs arbitrary: st)
  case Nil
  then show ?case by simp
next
  case (Cons hc cs)
  obtain h c where hc: "hc = (h, c)" by (cases hc)
  obtain s w where st: "st = (s, w)" by (cases st)
  from Cons.prems st have "connector_inv (fst (transact h c (s, w)))"
    by (simp add: transact_inv)
  then have "connector_inv (fst (run cs (transact h c (s, w))))" by (rule Cons.IH)
  with hc st show ?case by simp
qed

lemma on_install_inv:
  assumes "on_install h blank_storage reg maxfee ctok cw = Inr s0"
  shows "connector_inv s0"
proof -
  let ?s1 = "blank_storage\<lparr>allow_registry_update := True, registry := Some reg,
                     prev_registry := Some reg, conversions_enabled := True,
                     max_conversion_fee := maxfee\<rparr>"
  have "weights_untouched blank_storage ?s1" by (simp add: weights_untouched_def)
  then have inv1: "connector_inv ?s1" using connector_inv_blank by (rule weights_untouched_inv)
  from assms have "s0 = ?s1 \<or> addConnector h ?s1 ctok cw False = Inr s0"
    by (auto simp: on_install_def Let_def split: if_splits)
  with inv1 show ?thesis by (auto dest: addConnector_inv)
qed

lemma connector_inv_sum:
  assumes "connector_inv s"
  shows "total_connector_weight s = (\<Sum>a | is_set (connectors s a). weight (connectors s a))"
proof -
  from assms have d: "distinct (connector_tokens s)"
    and e: "set (connector_tokens s) = {a. is_set (connectors s a)}"
    and t: "total_connector_weight s
       = sum_list (map (\<lambda>a. weight (connectors s a)) (connector_tokens s))"
    by (simp_all add: connector_inv_def)
  from d have "sum_list (map (\<lambda>a. weight (connectors s a)) (connector_tokens s))
      = sum (\<lambda>a. weight (connectors s a)) (set (connector_tokens s))"
    by (rule sum_list_distinct_conv_sum_set)
  with t e show ?thesis by simp
qed

lemma addConnector_overflow:
  "MAX_WEIGHT < total_connector_weight s + wgt \<Longrightarrow> \<exists>e. addConnector h s a wgt evb = Inl e"
  by (auto simp: addConnector_def split: sum.splits)

section \<open>The registry switch\<close>

lemma transact_keeps_disabled:
  assumes "\<not> allow_registry_update s"
    and "c = DisableRegistryUpdate False \<longrightarrow> msg_sender h \<noteq> owner h \<and> msg_sender h \<noteq> manager h"
  shows "\<not> allow_registry_update (fst (transact h c (s, w)))"
proof (cases c)
  case (Convert trader a b amount m)
  show ?thesis
  proof (cases "convert h s w trader a b amount m")
    case (Reverted e s' w')
    with assms(1) Convert show ?thesis by simp
  next
    case (Returned r s' w' evs)
    with convert_frame [of s h w trader a b amount m]
    have "allow_registry_update s' = allow_registry_update s"
      by (simp add: only_virtual_balances_differ_def)
    with assms(1) Returned Convert show ?thesis by simp
  qed
next
  case (DisableRegistryUpdate d)
  with assms show ?thesis
    by (auto simp: commit_def disableRegistryUpdate_def require_owner_or_manager_only_def
        split: sum.splits if_splits)
qed (use assms(1) in \<open>auto simp: commit_def addConnector_def updateConnector_def
      disableConnectorPurchases_def connector_upd_def updateRegistry_def restoreRegistry_def
      disableConversions_def setConversionFee_def Let_def
      split: sum.splits option.splits if_splits\<close>)

lemma run_keeps_disabled:
  assumes "\<not> allow_registry_update (fst st)"
    and "\<forall>(h, c) \<in> set cs. c = DisableRegistryUpdate False \<longrightarrow>
           msg_sender h \<noteq> owner h \<and> msg_sender h \<noteq> manager h"
  shows "\<not> allow_registry_update (fst (run cs st))"
  using assms
proof (induction cs arbitrary: st)
  case Nil
  then show ?case by simp
next
  case (Cons hc cs)
  obtain h c where hc: "hc = (h, c)" by (cases hc)
  obtain s w where st: "st = (s, w)" by (cases st)
  from Cons.prems hc st have "\<not> allow_registry_update (fst (transact h c (s, w)))"
    by (intro transact_keeps_disabled) auto
  moreover from Cons.prems(2) have "\<forall>(h, c) \<in> set cs. c = DisableRegistryUpdate False \<longrightarrow>
           msg_sender h \<noteq> owner h \<and> msg_sender h \<noteq> manager h" by simp
  ultimately have "\<not> allow_registry_update (fst (run cs (transact h c (s, w))))"
    by (rule Cons.IH)
  with hc st show ?case by simp
qed

section \<open>Where a conversion can revert\<close>

lemma get_sale_return_balance:
  "get_sale_return h s w tok amount = Inr (ret, fee) \<Longrightarrow>
   \<exists>bal. getConnectorBalance h s w tok = Inr bal"
  by (auto simp: get_sale_return_def Let_def split: if_splits sum.splits)

lemma cross_success:
  assumes ret: "convert_cross_connector h s w trader a b amount m = Returned r s' w' evs"
    and ne: "a \<noteq> b" and pos: "0 < m"
  shows "\<exists>fee bal. get_cross_connector_return h s w a b amount True = Inr (r, fee) \<and>
           getConnectorBalance h s w b = Inr bal \<and> r < bal"
proof -
  from ret obtain fee where gcr: "get_cross_connector_return h s w a b amount True = Inr (r, fee)"
    by (auto simp: convert_cross_connector_def Let_def
        split: sum.splits prod.splits if_splits option.splits)
  from ret gcr have mr: "m \<le> r"
    by (auto simp: convert_cross_connector_def split: if_splits)
  from gcr have set_b: "is_set (connectors s b)"
    by (auto simp: get_cross_connector_return_def split: if_splits)
  let ?s1 = "if is_virtual_balance_enabled (connectors s a)
             then connector_upd a (\<lambda>c. c\<lparr>virtual_balance := virtual_balance c + amount\<rparr>) s
             else s"
  have cb: "connectors ?s1 b = connectors s b"
    using ne by (simp add: connector_upd_def)
  show ?thesis
  proof (cases "is_virtual_balance_enabled (connectors s b)")
    case True
    with ret gcr mr cb have "r < virtual_balance (connectors s b) - r"
      by (auto simp: convert_cross_connector_def Let_def getConnectorBalance_def
          safe_sub_def connector_upd_def
          split: sum.splits if_splits option.splits)
    with mr pos have "r < virtual_balance (connectors s b)" by linarith
    with True set_b gcr show ?thesis by (simp add: getConnectorBalance_def)
  next
    case False
    with ret gcr mr cb have "r < balanceOf h b w"
      by (auto simp: convert_cross_connector_def Let_def getConnectorBalance_def
          connector_upd_def
          split: sum.splits if_splits option.splits)
    with False set_b gcr show ?thesis by (simp add: getConnectorBalance_def)
  qed
qed

lemma get_purchase_return_set:
  "get_purchase_return h s w tok amount fc = Inr x \<Longrightarrow> is_set (connectors s tok)"
  by (auto simp: get_purchase_return_def split: if_splits)

lemma get_sale_return_set:
  "get_sale_return h s w tok amount = Inr x \<Longrightarrow> is_set (connectors s tok)"
  by (auto simp: get_sale_return_def split: if_splits)

lemma get_cross_connector_return_set:
  "get_cross_connector_return h s w a b amount fc = Inr x \<Longrightarrow>
   is_set (connectors s a) \<and> is_set (connectors s b)"
  by (auto simp: get_cross_connector_return_def split: if_splits)

lemma getConnectorBalance_error:
  "getConnectorBalance h s w tok = Inl e \<Longrightarrow> \<not> is_set (connectors s tok)"
  by (auto simp: getConnectorBalance_def Let_def split: if_splits)

lemma is_set_connector_upd:
  "is_set (connectors (connector_upd a (\<lambda>c. c\<lparr>virtual_balance := g c\<rparr>) s) b)
     = is_set (connectors s b)"
  by (simp add: connector_upd_def)

lemma buy_revert_early:
  assumes "buy h s w trader tok amount m = Reverted e s' w'" and "e \<noteq> ExternalCallFailure"
  shows "s' = s \<and> w' = w"
proof (cases "get_purchase_return h s w tok amount True")
  case (Inl e')
  with assms show ?thesis by (simp add: buy_def)
next
  case (Inr p)
  then have present: "is_set (connectors s tok)" by (rule get_purchase_return_set)
  obtain ret fee where p: "p = (ret, fee)" by (cases p)
  from assms Inr p present show ?thesis
    by (auto simp: buy_def Let_def is_set_connector_upd
        split: if_splits option.splits sum.splits dest!: getConnectorBalance_error)
qed

lemma sell_revert_early:
  assumes "sell h s w trader tok amount m = Reverted e s' w'" and "e \<noteq> ExternalCallFailure"
  shows "s' = s \<and> w' = w"
proof (cases "get_sale_return h s w tok amount")
  case (Inl e')
  with assms show ?thesis by (simp add: sell_def)
next
  case (Inr p)
  then have present: "is_set (connectors s tok)" by (rule get_sale_return_set)
  obtain ret fee where p: "p = (ret, fee)" by (cases p)
  from assms Inr p present show ?thesis
    by (auto simp: sell_def Let_def is_set_connector_upd
        split: if_splits option.splits sum.splits dest!: getConnectorBalance_error)
qed

lemma cross_revert_early:
  assumes "convert_cross_connector h s w trader a b amount m = Reverted e s' w'"
    and "e \<noteq> ExternalCallFailure" and "e \<noteq> ConnectorBalanceCondition"
    and "e \<noteq> SubtractionUnderflow"
  shows "s' = s \<and> w' = w"
proof (cases "get_cross_connector_return h s w a b amount True")
  case (Inl e')
  with assms show ?thesis by (simp add: convert_cross_connector_def)
next
  case (Inr p)
  then have present: "is_set (connectors s a)" "is_set (connectors s b)"
    by (auto dest: get_cross_connector_return_set)
  obtain ret fee where p: "p = (ret, fee)" by (cases p)
  from assms Inr p present show ?thesis
    by (auto simp: convert_cross_connector_def Let_def is_set_connector_upd safe_sub_def
        split: if_splits option.splits sum.splits dest!: getConnectorBalance_error)
qed

text \<open>
  On the BUY and SELL paths every check of the converter comes before its first write;
  on the CROSS path that holds for every check but the balance condition of the target
  and the underflow check of its virtual balance.
\<close>

lemma convert_revert_state:
  assumes "convert h s w trader from_token to_token amount min_return = Reverted e s' w'"
    and "e \<noteq> ExternalCallFailure"
    and "to_token = token h \<or> from_token = token h \<or>
         (e \<noteq> ConnectorBalanceCondition \<and> e \<noteq> SubtractionUnderflow)"
  shows "s' = s \<and> w' = w"
  using assms
  by (auto simp: convert_def Let_def split: if_splits sum.splits
      dest: buy_revert_early sell_revert_early cross_revert_early)

section \<open>The purchase flag\<close>

lemma spe_fields:
  "virtual_balance (connectors (set_purchase_enabled c b s) a) = virtual_balance (connectors s a)"
  "weight (connectors (set_purchase_enabled c b s) a) = weight (connectors s a)"
  "is_virtual_balance_enabled (connectors (set_purchase_enabled c b s) a)
     = is_virtual_balance_enabled (connectors s a)"
  "is_set (connectors (set_purchase_enabled c b s) a) = is_set (connectors s a)"
  "a \<noteq> c \<Longrightarrow> is_purchase_enabled (connectors (set_purchase_enabled c b s) a)
     = is_purchase_enabled (connectors s a)"
  "is_purchase_enabled (connectors (set_purchase_enabled c b s) c) = b"
  "conversions_enabled (set_purchase_enabled c b s) = conversions_enabled s"
  "conversion_fee (set_purchase_enabled c b s) = conversion_fee s"
  by (simp_all add: set_purchase_enabled_def connector_upd_def)

lemma spe_getConnectorBalance:
  "getConnectorBalance h (set_purchase_enabled c b s) w a = getConnectorBalance h s w a"
  by (simp add: getConnectorBalance_def spe_fields)

lemma spe_getFinalAmount:
  "getFinalAmount (set_purchase_enabled c b s) x n = getFinalAmount s x n"
  by (simp add: getFinalAmount_def spe_fields)

lemma spe_get_sale_return:
  "get_sale_return h (set_purchase_enabled c b s) w a amount = get_sale_return h s w a amount"
  by (simp add: get_sale_return_def spe_fields spe_getConnectorBalance spe_getFinalAmount
      Let_def split: sum.splits option.splits)

lemma spe_get_cross_connector_return:
  "t \<noteq> c \<Longrightarrow>
   get_cross_connector_return h (set_purchase_enabled c b s) w f t amount fc
     = get_cross_connector_return h s w f t amount fc"
  by (simp add: get_cross_connector_return_def spe_fields spe_getConnectorBalance
      spe_getFinalAmount Let_def split: sum.splits option.splits)

lemma spe_commute_const:
  "connector_upd a (\<lambda>x. x\<lparr>virtual_balance := v\<rparr>) (set_purchase_enabled c b s)
     = set_purchase_enabled c b (connector_upd a (\<lambda>x. x\<lparr>virtual_balance := v\<rparr>) s)"
  by (auto simp: set_purchase_enabled_def connector_upd_def fun_eq_iff)

lemma spe_commute_add:
  "connector_upd a (\<lambda>x. x\<lparr>virtual_balance := virtual_balance x + n\<rparr>)
       (set_purchase_enabled c b s)
     = set_purchase_enabled c b
         (connector_upd a (\<lambda>x. x\<lparr>virtual_balance := virtual_balance x + n\<rparr>) s)"
  by (auto simp: set_purchase_enabled_def connector_upd_def fun_eq_iff)

lemma spe_upd_fields:
  "weight (connectors (connector_upd a (\<lambda>x. x\<lparr>virtual_balance := g x\<rparr>) s) x)
     = weight (connectors s x)"
  by (simp add: connector_upd_def)

lemma sell_spe:
  "sell h (set_purchase_enabled c b s) w trader a amount m
     = with_storage (set_purchase_enabled c b) (sell h s w trader a amount m)"
  by (simp add: sell_def spe_get_sale_return spe_getConnectorBalance spe_fields Let_def
      spe_commute_const spe_upd_fields
      split: sum.splits prod.splits option.splits)

lemma cross_spe:
  "t \<noteq> c \<Longrightarrow>
   convert_cross_connector h (set_purchase_enabled c b s) w trader f t amount m
     = with_storage (set_purchase_enabled c b)
         (convert_cross_connector h s w trader f t amount m)"
  by (simp add: convert_cross_connector_def spe_get_cross_connector_return
      spe_getConnectorBalance spe_fields Let_def
      spe_commute_const spe_commute_add spe_upd_fields
      split: sum.splits prod.splits option.splits)

lemma convert_spe:
  assumes "t \<noteq> token h" and "f = token h \<or> t \<noteq> c"
  shows "convert h (set_purchase_enabled c b s) w trader f t amount m
     = with_storage (set_purchase_enabled c b) (convert h s w trader f t amount m)"
  using assms
  by (auto simp: convert_def spe_fields Let_def sell_spe cross_spe split: sum.splits)

lemma spe_absorb:
  assumes "\<not> is_purchase_enabled (connectors s c)"
  shows "set_purchase_enabled c False (set_purchase_enabled c True s) = s"
proof -
  have "(connectors s c)\<lparr>is_purchase_enabled := False\<rparr> = connectors s c"
    using assms by simp
  then show ?thesis
    by (simp add: set_purchase_enabled_def connector_upd_def)
qed

lemma disabled_after:
  "disableConnectorPurchases h0 s0 c True = Inr s \<Longrightarrow>
   is_set (connectors s c) \<and> \<not> is_purchase_enabled (connectors s c)"
  by (auto simp: disableConnectorPurchases_def connector_upd_def split: sum.splits if_splits)

lemma buy_disabled:
  "\<not> is_purchase_enabled (connectors s c) \<Longrightarrow>
   \<exists>e. buy h s w trader c amount m = Reverted e s w"
  by (simp add: buy_def get_purchase_return_def)

lemma cross_disabled:
  "\<not> is_purchase_enabled (connectors s c) \<Longrightarrow>
   \<exists>e. convert_cross_connector h s w trader x c amount m = Reverted e s w"
  by (simp add: convert_cross_connector_def get_cross_connector_return_def)

lemma purchase_flag_off:
  assumes off: "\<not> is_purchase_enabled (connectors s c)"
  shows "(\<exists>e. convert h s w trader c (token h) amount m = Reverted e s w) \<and>
         (c \<noteq> token h \<and> x \<noteq> token h \<longrightarrow>
            (\<exists>e. convert h s w trader x c amount m = Reverted e s w)) \<and>
         (c \<noteq> token h \<longrightarrow>
            convert h s w trader (token h) c amount m
              = with_storage (set_purchase_enabled c False)
                  (convert h (set_purchase_enabled c True s) w trader (token h) c amount m)) \<and>
         (y \<noteq> c \<and> y \<noteq> token h \<longrightarrow>
            convert h s w trader c y amount m
              = with_storage (set_purchase_enabled c False)
                  (convert h (set_purchase_enabled c True s) w trader c y amount m))"
proof (intro conjI impI)
  show "\<exists>e. convert h s w trader c (token h) amount m = Reverted e s w"
    using buy_disabled [OF off, of h w trader amount m]
    by (auto simp: convert_def Let_def split: sum.splits)
next
  assume "c \<noteq> token h \<and> x \<noteq> token h"
  then show "\<exists>e. convert h s w trader x c amount m = Reverted e s w"
    using cross_disabled [OF off, of h w trader x amount m]
    by (auto simp: convert_def Let_def split: sum.splits)
next
  assume ne: "c \<noteq> token h"
  from off have same: "set_purchase_enabled c False (set_purchase_enabled c True s) = s"
    by (rule spe_absorb)
  from ne same
  show "convert h s w trader (token h) c amount m
          = with_storage (set_purchase_enabled c False)
              (convert h (set_purchase_enabled c True s) w trader (token h) c amount m)"
    using convert_spe [of c h "token h" c False "set_purchase_enabled c True s"
        w trader amount m]
    by simp
next
  assume ne: "y \<noteq> c \<and> y \<noteq> token h"
  from off have same: "set_purchase_enabled c False (set_purchase_enabled c True s) = s"
    by (rule spe_absorb)
  from ne same
  show "convert h s w trader c y amount m
          = with_storage (set_purchase_enabled c False)
              (convert h (set_purchase_enabled c True s) w trader c y amount m)"
    using convert_spe [of y h c c False "set_purchase_enabled c True s"
        w trader amount m]
    by simp
qed

text \<open>
  The flag of a connector that is set stays off through every request except an
  authorised \<open>disableConnectorPurchases\<close> with \<open>False\<close> for that connector.
\<close>

lemma transact_keeps_purchase_off:
  assumes "is_set (connectors s c)" and "\<not> is_purchase_enabled (connectors s c)"
    and "call = DisableConnectorPurchases c False \<longrightarrow> msg_sender h \<noteq> owner h"
  shows "is_set (connectors (fst (transact h call (s, w))) c) \<and>
         \<not> is_purchase_enabled (connectors (fst (transact h call (s, w))) c)"
proof (cases call)
  case (Convert trader a b amount m)
  show ?thesis
  proof (cases "convert h s w trader a b amount m")
    case (Reverted e s' w')
    with assms(1,2) Convert show ?thesis by simp
  next
    case (Returned r s' w' evs)
    with convert_frame [of s h w trader a b amount m]
    have "is_set (connectors s' c) = is_set (connectors s c)"
      and "is_purchase_enabled (connectors s' c) = is_purchase_enabled (connectors s c)"
      by (simp_all add: only_virtual_balances_differ_def)
    with assms(1,2) Returned Convert show ?thesis by simp
  qed
next
  case (DisableConnectorPurchases a d)
  with assms show ?thesis
    by (auto simp: commit_def disableConnectorPurchases_def require_owner_only_def
        connector_upd_def split: sum.splits if_splits)
next
  case (AddConnector a wgt evb)
  with assms(1,2) show ?thesis
    by (auto simp: commit_def addConnector_def split: sum.splits if_splits)
next
  case (UpdateConnector a wgt evb vb)
  with assms(1,2) show ?thesis
    by (auto simp: commit_def updateConnector_def Let_def split: sum.splits if_splits)
qed (use assms(1,2) in \<open>auto simp: commit_def updateRegistry_def restoreRegistry_def
      disableRegistryUpdate_def disableConversions_def setConversionFee_def Let_def
      split: sum.splits option.splits if_splits\<close>)

lemma run_keeps_purchase_off:
  assumes "is_set (connectors (fst st) c)" and "\<not> is_purchase_enabled (connectors (fst st) c)"
    and "\<forall>(h, call) \<in> set cs. call = DisableConnectorPurchases c False \<longrightarrow>
           msg_sender h \<noteq> owner h"
  shows "is_set (connectors (fst (run cs st)) c) \<and>
         \<not> is_purchase_enabled (connectors (fst (run cs st)) c)"
  using assms
proof (induction cs arbitrary: st)
  case Nil
  then show ?case by simp
next
  case (Cons hc cs)
  obtain h call where hc: "hc = (h, call)" by (cases hc)
  obtain s w where st: "st = (s, w)" by (cases st)
  from Cons.prems hc st
  have step: "is_set (connectors (fst (transact h call (s, w))) c) \<and>
      \<not> is_purchase_enabled (connectors (fst (transact h call (s, w))) c)"
    by (intro transact_keeps_purchase_off) auto
  from Cons.prems(3) have rest: "\<forall>(h, call) \<in> set cs.
      call = DisableConnectorPurchases c False \<longrightarrow> msg_sender h \<noteq> owner h"
    by simp
  from step rest
  have "is_set (connectors (fst (run cs (transact h call (s, w)))) c) \<and>
      \<not> is_purchase_enabled (connectors (fst (run cs (transact h call (s, w)))) c)"
    by (intro Cons.IH) auto
  with hc st show ?case by simp
qed

section \<open>Conversions on the concrete host\<close>

lemmas eval_defs = convert_def buy_def sell_def convert_cross_connector_def
  get_purchase_return_def get_sale_return_def get_cross_connector_return_def
  getConnectorBalance_def getFinalAmount_def safe_sub_def require_positive_value_def
  connector_upd_def MAX_CONVERSION_FEE_def Let_def
  two_virtual_def installed_3pc_def blank_storage_def unset_connector_def
  example_host_def example_ledger_def generous_host_def

lemma two_virtual_reachable:
  "run virtual_requests (installed_3pc, example_ledger) = (two_virtual, example_ledger)"
  by (simp add: virtual_requests_def two_virtual_def addConnector_def updateConnector_def
      require_owner_only_def example_host_def installed_3pc_def blank_storage_def
      unset_connector_def MAX_WEIGHT_def commit_def Let_def fun_eq_iff)

lemma sell_example:
  "sell (example_host 5 True) two_virtual example_ledger 5 20 500 1
     = Returned 200 (connector_upd 20 (\<lambda>c. c\<lparr>virtual_balance := 200\<rparr>) two_virtual)
         (example_ledger\<lparr>flexible_supply := 500,
            holdings := (holdings example_ledger)(20 := 300)\<rparr>)
         [Conversion 10 20 5 500 200 0, PriceDataUpdate 20 500 200 500000]"
  by (simp add: eval_defs)

lemma cross_example:
  "convert (example_host 5 True) two_virtual example_ledger 5 20 21 100 1
     = Returned 250
         (connector_upd 21 (\<lambda>c. c\<lparr>virtual_balance := 750\<rparr>)
            (connector_upd 20 (\<lambda>c. c\<lparr>virtual_balance := 500\<rparr>) two_virtual))
         (example_ledger\<lparr>holdings := (holdings example_ledger)(21 := 750)\<rparr>)
         [Conversion 20 21 5 100 250 0, PriceDataUpdate 20 1000 500 500000,
          PriceDataUpdate 21 1000 750 500000]"
  by (simp add: eval_defs)

lemma sell_refused_example:
  "get_sale_return generous_host two_virtual example_ledger 20 400 = Inr (400, 0) \<and>
   getConnectorBalance generous_host two_virtual example_ledger 20 = Inr 400 \<and>
   totalSupply generous_host example_ledger = 1000"
  by (simp add: eval_defs)

section \<open>Claims\<close>

text \<open>
  C1, as the specification states it: for a raw amount that is not negative, a magnitude
  of 1 or 2 and a fee between 0 and the installed ceiling, \<open>getFinalAmount\<close> is
  \<open>rawAmount * (maxConversionFee - conversionFee)^magnitude // maxConversionFee^magnitude\<close>
  with the installed ceiling as \<open>maxConversionFee\<close>. The code divides by the constant
  1000000 instead. On a converter installed with a ceiling of 30000 and a fee of 10000,
  a raw amount of 3000000 gives 2970000, where the stated formula gives 2000000.
\<close>

theorem getFinalAmount_installed_ceiling_counterexample:
  "on_install (example_host 1 False) blank_storage 100 30000 0 0 = Inr installed_3pc \<and>
   setConversionFee (example_host 2 False) installed_3pc 10000
     = Inr (fee_1pc, [ConversionFeeUpdate 0 10000]) \<and>
   0 \<le> conversion_fee fee_1pc \<and> conversion_fee fee_1pc \<le> max_conversion_fee fee_1pc \<and>
   getFinalAmount fee_1pc 3000000 1 = Some 2970000 \<and>
   finalAmount_spec 3000000 1 (conversion_fee fee_1pc) (max_conversion_fee fee_1pc) = 2000000 \<and>
   getFinalAmount fee_1pc 3000000 1
     \<noteq> Some (finalAmount_spec 3000000 1 (conversion_fee fee_1pc) (max_conversion_fee fee_1pc))"
proof -
  have fees: "conversion_fee fee_1pc = 10000" "max_conversion_fee fee_1pc = 30000"
    by (simp_all add: fee_1pc_def installed_3pc_def)
  have code: "getFinalAmount fee_1pc 3000000 1 = Some 2970000"
    unfolding getFinalAmount_1 fees by simp
  have spec: "finalAmount_spec 3000000 1 10000 30000 = 2000000"
    by (simp add: finalAmount_spec_def)
  from on_install_3pc setConversionFee_1pc fees code spec show ?thesis by simp
qed

text \<open>
  C1, amended: for a raw amount that is not negative, a magnitude of 1 or 2 and a fee
  between 0 and the installed ceiling, \<open>getFinalAmount\<close> returns the integer
  \<open>rawAmount * (1000000 - conversionFee)^magnitude // 1000000^magnitude\<close>, where 1000000
  is the constant \<^verbatim>\<open>_MAX_CONVERSION_FEE\<close> and not the installed ceiling; this is the
  specification's formula when the converter was installed with a ceiling of 1000000.
\<close>

theorem getFinalAmount_ppm:
  assumes "0 \<le> rawAmount" and "magnitude = 1 \<or> magnitude = 2"
    and "0 \<le> conversion_fee s" and "conversion_fee s \<le> max_conversion_fee s"
  shows "getFinalAmount s rawAmount magnitude
           = Some (rawAmount * (1000000 - conversion_fee s) ^ nat magnitude
                     div 1000000 ^ nat magnitude) \<and>
         (max_conversion_fee s = 1000000 \<longrightarrow>
            getFinalAmount s rawAmount magnitude
              = Some (finalAmount_spec rawAmount (nat magnitude) (conversion_fee s)
                        (max_conversion_fee s)))"
  using assms(2)
  by (auto simp: getFinalAmount_def finalAmount_spec_def MAX_CONVERSION_FEE_def)

theorem getFinalAmount_ppm_witness:
  "(0::int) \<le> 1000 \<and> ((2::int) = 1 \<or> (2::int) = 2) \<and>
   0 \<le> conversion_fee (blank_storage\<lparr>max_conversion_fee := 1000000, conversion_fee := 3000\<rparr>) \<and>
   conversion_fee (blank_storage\<lparr>max_conversion_fee := 1000000, conversion_fee := 3000\<rparr>)
     \<le> max_conversion_fee (blank_storage\<lparr>max_conversion_fee := 1000000, conversion_fee := 3000\<rparr>) \<and>
   max_conversion_fee (blank_storage\<lparr>max_conversion_fee := 1000000, conversion_fee := 3000\<rparr>)
     = 1000000 \<and>
   getFinalAmount (blank_storage\<lparr>max_conversion_fee := 1000000, conversion_fee := 3000\<rparr>) 1000 2
     = Some 994 \<and>
   finalAmount_spec 1000 2 3000 1000000 = 994"
proof -
  let ?s = "blank_storage\<lparr>max_conversion_fee := 1000000, conversion_fee := 3000\<rparr>"
  have raw: "(0::int) \<le> 1000" and mag: "(2::int) = 1 \<or> (2::int) = 2"
    and lo: "0 \<le> conversion_fee ?s" and hi: "conversion_fee ?s \<le> max_conversion_fee ?s"
    by simp_all
  have spec: "finalAmount_spec 1000 2 3000 1000000 = 994"
    by (simp add: finalAmount_spec_def)
  from getFinalAmount_ppm [OF raw mag lo hi] raw mag lo hi spec show ?thesis by simp
qed

text \<open>
  C7, as the specification states it: for a raw amount that is not negative and a fee
  between 0 and the ceiling, \<open>getFinalAmount raw 1 \<le> raw\<close>, with equality if and only
  if the fee is 0. A raw amount of 0 comes back as 0 whatever the fee: with a fee of
  10000 the two sides are equal and the fee is not 0.
\<close>

theorem getFinalAmount_equality_counterexample:
  "(0::int) \<le> 0 \<and> 0 \<le> conversion_fee fee_1pc \<and>
   conversion_fee fee_1pc \<le> max_conversion_fee fee_1pc \<and>
   max_conversion_fee fee_1pc \<le> MAX_CONVERSION_FEE \<and>
   \<not> (getFinalAmount fee_1pc 0 1 = Some 0 \<longleftrightarrow> conversion_fee fee_1pc = 0)"
proof -
  have fees: "conversion_fee fee_1pc = 10000" "max_conversion_fee fee_1pc = 30000"
    by (simp_all add: fee_1pc_def installed_3pc_def)
  have code: "getFinalAmount fee_1pc 0 1 = Some 0"
    unfolding getFinalAmount_1 by simp
  from fees code show ?thesis by (simp add: MAX_CONVERSION_FEE_def)
qed

text \<open>
  C7, amended: for a raw amount that is not negative and a fee between 0 and a ceiling
  of at most 1000000, \<open>getFinalAmount raw 1\<close> is an integer \<open>r \<le> raw\<close>; for a raw
  amount above 0, \<open>r = raw\<close> holds if and only if the fee is 0; for a raw amount of 0
  the result is 0.
\<close>

theorem getFinalAmount_le_raw:
  assumes "0 \<le> raw" and "0 \<le> conversion_fee s"
    and "conversion_fee s \<le> max_conversion_fee s"
    and "max_conversion_fee s \<le> MAX_CONVERSION_FEE"
  shows "\<exists>r. getFinalAmount s raw 1 = Some r \<and> r \<le> raw \<and>
             (0 < raw \<longrightarrow> (r = raw \<longleftrightarrow> conversion_fee s = 0)) \<and>
             (raw = 0 \<longrightarrow> r = 0)"
proof -
  let ?f = "conversion_fee s"
  let ?r = "raw * (1000000 - ?f) div 1000000"
  have le: "raw * (1000000 - ?f) \<le> raw * 1000000"
    using assms(1,2) by (simp add: mult_left_mono)
  have 1: "?r \<le> raw"
    using int_div_le [OF le] by simp
  have 2: "?r = raw \<longleftrightarrow> ?f = 0" if pos: "0 < raw"
  proof
    assume eq: "?r = raw"
    show "?f = 0"
    proof (rule ccontr)
      assume "?f \<noteq> 0"
      with assms(2) have "0 < ?f" by simp
      with pos have "raw * (1000000 - ?f) < raw * 1000000" by simp
      then have "?r < raw"
        by (rule int_div_less) simp
      with eq show False by simp
    qed
  next
    assume "?f = 0"
    then show "?r = raw" by simp
  qed
  have 3: "?r = 0" if "raw = 0" using that by simp
  from 1 2 3 have "getFinalAmount s raw 1 = Some ?r \<and> ?r \<le> raw \<and>
             (0 < raw \<longrightarrow> (?r = raw \<longleftrightarrow> conversion_fee s = 0)) \<and>
             (raw = 0 \<longrightarrow> ?r = 0)"
    unfolding getFinalAmount_1 by blast
  then show ?thesis by (rule exI)
qed

theorem getFinalAmount_le_raw_witness:
  "(0::int) \<le> 1000 \<and> 0 \<le> conversion_fee fee_1pc \<and>
   conversion_fee fee_1pc \<le> max_conversion_fee fee_1pc \<and>
   max_conversion_fee fee_1pc \<le> MAX_CONVERSION_FEE \<and>
   getFinalAmount fee_1pc 1000 1 = Some 990 \<and>
   (\<exists>r. getFinalAmount fee_1pc 1000 1 = Some r \<and> r \<le> 1000 \<and> r \<noteq> 1000)"
proof -
  have h: "0 \<le> conversion_fee fee_1pc" "conversion_fee fee_1pc \<le> max_conversion_fee fee_1pc"
    "max_conversion_fee fee_1pc \<le> MAX_CONVERSION_FEE" "conversion_fee fee_1pc \<noteq> 0"
    by (simp_all add: fee_1pc_def installed_3pc_def blank_storage_def MAX_CONVERSION_FEE_def)
  have raw: "(0::int) \<le> 1000" by simp
  have val: "getFinalAmount fee_1pc 1000 1 = Some 990"
    unfolding getFinalAmount_1 by (simp add: fee_1pc_def)
  from getFinalAmount_le_raw [OF raw h(1,2,3)] h(4)
  have "\<exists>r. getFinalAmount fee_1pc 1000 1 = Some r \<and> r \<le> 1000 \<and> r \<noteq> 1000"
    by auto
  with raw h(1,2,3) val show ?thesis by blast
qed

text \<open>
  C2: after installation and any sequence of requests (among them \<open>addConnector\<close> and
  \<open>updateConnector\<close>, each succeeding or reverting), the stored total weight is the sum
  of the weights of the connectors that are set, the connector list holds exactly those
  connectors, once each, and the total is at most 1000000. An \<open>addConnector\<close> whose
  weight would lift the total above 1000000 reverts, and the transaction leaves the
  storage and the other contracts as they were.
\<close>

theorem total_weight_is_sum:
  assumes "on_install h0 blank_storage reg maxfee ctok cw = Inr s0"
    and "run cs (s0, w0) = (s, w)"
  shows "total_connector_weight s = (\<Sum>a | is_set (connectors s a). weight (connectors s a)) \<and>
         distinct (connector_tokens s) \<and>
         set (connector_tokens s) = {a. is_set (connectors s a)} \<and>
         total_connector_weight s \<le> 1000000 \<and>
         (1000000 < total_connector_weight s + wgt \<longrightarrow>
            (\<exists>e. addConnector h s a wgt evb = Inl e) \<and>
            transact h (AddConnector a wgt evb) (s, w) = (s, w))"
proof -
  from assms(1) have "connector_inv s0" by (rule on_install_inv)
  then have "connector_inv (fst (run cs (s0, w0)))" using run_inv [of "(s0, w0)" cs] by simp
  with assms(2) have inv: "connector_inv s" by simp
  have over: "(\<exists>e. addConnector h s a wgt evb = Inl e) \<and>
            transact h (AddConnector a wgt evb) (s, w) = (s, w)"
    if "1000000 < total_connector_weight s + wgt"
  proof -
    from that obtain e where "addConnector h s a wgt evb = Inl e"
      using addConnector_overflow [of s wgt h a evb] by (auto simp: MAX_WEIGHT_def)
    then show ?thesis by (simp add: commit_def)
  qed
  from inv connector_inv_sum [OF inv] over show ?thesis
    by (simp add: connector_inv_def MAX_WEIGHT_def)
qed

theorem total_weight_is_sum_witness:
  "on_install (example_host 1 False) blank_storage 100 30000 20 600000 = Inr one_connector \<and>
   total_connector_weight (fst (run weight_requests (one_connector, example_ledger)))
     = 1000000 \<and>
   (\<exists>e. addConnector (example_host 1 False)
          (fst (run weight_requests (one_connector, example_ledger))) 23 1 False = Inl e)"
proof -
  let ?s = "fst (run weight_requests (one_connector, example_ledger))"
  let ?w = "snd (run weight_requests (one_connector, example_ledger))"
  have inst: "on_install (example_host 1 False) blank_storage 100 30000 20 600000
      = Inr one_connector"
    by (simp add: on_install_def addConnector_def require_owner_only_def example_host_def
        one_connector_def installed_3pc_def blank_storage_def unset_connector_def
        MAX_WEIGHT_def MAX_CONVERSION_FEE_def)
  have ran: "run weight_requests (one_connector, example_ledger) = (?s, ?w)" by simp
  have tot: "total_connector_weight ?s = 1000000"
    by (simp add: weight_requests_def addConnector_def updateConnector_def
        require_owner_only_def example_host_def one_connector_def installed_3pc_def
        blank_storage_def unset_connector_def MAX_WEIGHT_def commit_def Let_def)
  then have over: "1000000 < total_connector_weight ?s + 1" by simp
  from total_weight_is_sum [OF inst ran, of 1 "example_host 1 False" 23 False] over
  have "\<exists>e. addConnector (example_host 1 False) ?s 23 1 False = Inl e" by blast
  with inst tot show ?thesis by blast
qed

text \<open>
  C6, as the specification states it: after \<open>restoreRegistry\<close> every later
  \<open>updateRegistry\<close> fails, the owner's included, until updates are enabled again. The
  guard of \<open>updateRegistry\<close> lets the owner through whatever the switch says: the owner
  restores the registry and then updates it with success.
\<close>

theorem owner_updateRegistry_after_restore_counterexample:
  "restoreRegistry (example_host 1 False) installed_3pc
     = Inr (installed_3pc\<lparr>allow_registry_update := False\<rparr>) \<and>
   msg_sender (example_host 1 False) = owner (example_host 1 False) \<and>
   updateRegistry (example_host 1 False) (installed_3pc\<lparr>allow_registry_update := False\<rparr>)
     = Inr (installed_3pc\<lparr>allow_registry_update := False, prev_registry := Some 100,
              registry := Some 101\<rparr>)"
  by (simp add: restoreRegistry_def updateRegistry_def require_owner_or_manager_only_def
      example_host_def installed_3pc_def blank_storage_def)

text \<open>
  C6, amended: after \<open>restoreRegistry\<close> has completed, and for as long as neither the
  owner nor the manager calls \<open>disableRegistryUpdate(False)\<close>, every \<open>updateRegistry\<close>
  of a caller other than the owner reverts and changes nothing; the owner's
  \<open>updateRegistry\<close> is never stopped by the switch.
\<close>

theorem updateRegistry_after_restore:
  assumes "restoreRegistry h0 s0 = Inr s1"
    and "\<forall>(h, c) \<in> set cs. c = DisableRegistryUpdate False \<longrightarrow>
           msg_sender h \<noteq> owner h \<and> msg_sender h \<noteq> manager h"
    and "run cs (s1, w1) = (s, w)"
  shows "(msg_sender h \<noteq> owner h \<longrightarrow>
            updateRegistry h s = Inl RegistryUpdateNotAllowed \<and>
            transact h UpdateRegistry (s, w) = (s, w)) \<and>
         (msg_sender h = owner h \<longrightarrow> updateRegistry h s \<noteq> Inl RegistryUpdateNotAllowed)"
proof -
  from assms(1) have "\<not> allow_registry_update s1"
    by (auto simp: restoreRegistry_def split: sum.splits)
  then have "\<not> allow_registry_update (fst (run cs (s1, w1)))"
    using run_keeps_disabled [of "(s1, w1)" cs] assms(2) by simp
  with assms(3) have off: "\<not> allow_registry_update s" by simp
  then show ?thesis
    by (auto simp: updateRegistry_def commit_def split: option.splits)
qed

theorem updateRegistry_after_restore_witness:
  "restoreRegistry (example_host 2 False) installed_3pc
     = Inr (installed_3pc\<lparr>allow_registry_update := False\<rparr>) \<and>
   msg_sender (example_host 7 False) \<noteq> owner (example_host 7 False) \<and>
   updateRegistry (example_host 7 False)
     (fst (run [(example_host 7 False, DisableRegistryUpdate False),
                (example_host 1 False, DisableConversions True)]
            (installed_3pc\<lparr>allow_registry_update := False\<rparr>, example_ledger)))
     = Inl RegistryUpdateNotAllowed"
proof -
  let ?cs = "[(example_host 7 False, DisableRegistryUpdate False),
              (example_host 1 False, DisableConversions True)]"
  let ?s1 = "installed_3pc\<lparr>allow_registry_update := False\<rparr>"
  have restored: "restoreRegistry (example_host 2 False) installed_3pc = Inr ?s1"
    by (simp add: restoreRegistry_def require_owner_or_manager_only_def example_host_def
        installed_3pc_def blank_storage_def)
  have quiet: "\<forall>(h, c) \<in> set ?cs. c = DisableRegistryUpdate False \<longrightarrow>
           msg_sender h \<noteq> owner h \<and> msg_sender h \<noteq> manager h"
    by (simp add: example_host_def)
  have ran: "run ?cs (?s1, example_ledger)
      = (fst (run ?cs (?s1, example_ledger)), snd (run ?cs (?s1, example_ledger)))"
    by simp
  have other: "msg_sender (example_host 7 False) \<noteq> owner (example_host 7 False)"
    by (simp add: example_host_def)
  from updateRegistry_after_restore [OF restored quiet ran, of "example_host 7 False"]
    restored other
  show ?thesis by blast
qed

text \<open>
  C10: \<open>disableConversions d\<close>, called by the owner or the manager, changes nothing
  and emits nothing when the stored flag is already \<open>\<not> d\<close>; otherwise it stores \<open>\<not> d\<close>
  and emits one \<open>ConversionsEnable\<close> event with the new value. A second call with the
  same argument changes nothing and emits nothing. Any other caller is refused.
\<close>

theorem disableConversions_idempotent:
  "(msg_sender h = owner h \<or> msg_sender h = manager h \<longrightarrow>
      (conversions_enabled s = (\<not> d) \<longrightarrow> disableConversions h s d = Inr (s, [])) \<and>
      (conversions_enabled s \<noteq> (\<not> d) \<longrightarrow>
         disableConversions h s d
           = Inr (s\<lparr>conversions_enabled := \<not> d\<rparr>, [ConversionsEnable (\<not> d)])) \<and>
      (\<forall>s' evs. disableConversions h s d = Inr (s', evs) \<longrightarrow>
         conversions_enabled s' = (\<not> d) \<and> disableConversions h s' d = Inr (s', []))) \<and>
   (\<not> (msg_sender h = owner h \<or> msg_sender h = manager h) \<longrightarrow>
      disableConversions h s d = Inl NotOwnerOrManager)"
  by (auto simp: disableConversions_def require_owner_or_manager_only_def Let_def)

theorem disableConversions_idempotent_witness:
  "(msg_sender (example_host 2 True) = owner (example_host 2 True) \<or>
    msg_sender (example_host 2 True) = manager (example_host 2 True)) \<and>
   conversions_enabled installed_3pc \<noteq> (\<not> True) \<and>
   disableConversions (example_host 2 True) installed_3pc True
     = Inr (installed_3pc\<lparr>conversions_enabled := False\<rparr>, [ConversionsEnable False]) \<and>
   conversions_enabled (installed_3pc\<lparr>conversions_enabled := False\<rparr>) = (\<not> True) \<and>
   disableConversions (example_host 2 True) (installed_3pc\<lparr>conversions_enabled := False\<rparr>) True
     = Inr (installed_3pc\<lparr>conversions_enabled := False\<rparr>, []) \<and>
   \<not> (msg_sender (example_host 7 True) = owner (example_host 7 True) \<or>
      msg_sender (example_host 7 True) = manager (example_host 7 True)) \<and>
   disableConversions (example_host 7 True) installed_3pc True = Inl NotOwnerOrManager"
proof -
  have auth: "msg_sender (example_host 2 True) = owner (example_host 2 True) \<or>
      msg_sender (example_host 2 True) = manager (example_host 2 True)"
    by (simp add: example_host_def)
  have stranger: "\<not> (msg_sender (example_host 7 True) = owner (example_host 7 True) \<or>
      msg_sender (example_host 7 True) = manager (example_host 7 True))"
    by (simp add: example_host_def)
  have on: "conversions_enabled installed_3pc \<noteq> (\<not> True)"
    by (simp add: installed_3pc_def)
  have off: "conversions_enabled (installed_3pc\<lparr>conversions_enabled := False\<rparr>) = (\<not> True)"
    by simp
  have first: "disableConversions (example_host 2 True) installed_3pc True
      = Inr (installed_3pc\<lparr>conversions_enabled := \<not> True\<rparr>, [ConversionsEnable (\<not> True)])"
    using disableConversions_idempotent [of "example_host 2 True" installed_3pc True] auth on
    by blast
  have again: "disableConversions (example_host 2 True)
        (installed_3pc\<lparr>conversions_enabled := False\<rparr>) True
      = Inr (installed_3pc\<lparr>conversions_enabled := False\<rparr>, [])"
    using disableConversions_idempotent
      [of "example_host 2 True" "installed_3pc\<lparr>conversions_enabled := False\<rparr>" True]
      auth off
    by blast
  have refused: "disableConversions (example_host 7 True) installed_3pc True
      = Inl NotOwnerOrManager"
    using disableConversions_idempotent [of "example_host 7 True" installed_3pc True] stranger
    by blast
  from first have first': "disableConversions (example_host 2 True) installed_3pc True
      = Inr (installed_3pc\<lparr>conversions_enabled := False\<rparr>, [ConversionsEnable False])"
    by simp
  from auth stranger on off first' again refused show ?thesis by blast
qed

text \<open>
  C3, as the specification states it: a sale that does not meet the balance condition
  fails with the rejection of that condition. The minimum return is checked first:
  with a sale formula that hands out 400 against a balance of 400 while 1000 tokens
  are outstanding, and a requested minimum of 401, the sale is rejected for its return
  amount and not for the balance.
\<close>

theorem sell_minimum_return_first_counterexample:
  "get_sale_return generous_host two_virtual example_ledger 20 400 = Inr (400, 0) \<and>
   getConnectorBalance generous_host two_virtual example_ledger 20 = Inr 400 \<and>
   totalSupply generous_host example_ledger = 1000 \<and>
   \<not> ((400::int) < 400 \<or> ((400::int) = 400 \<and> (400::int) = 1000)) \<and>
   sell generous_host two_virtual example_ledger 5 20 400 401
     = Reverted ReturnLessThanMinimum two_virtual example_ledger \<and>
   ReturnLessThanMinimum \<noteq> ConnectorBalanceCondition"
proof -
  have "sell generous_host two_virtual example_ledger 5 20 400 401
     = Reverted ReturnLessThanMinimum two_virtual example_ledger"
    by (simp add: eval_defs)
  with sell_refused_example show ?thesis by simp
qed

text \<open>
  C3, amended: a sale returns only if the fee-adjusted return amount is below the
  connector's balance, or equals it while the sold amount is the whole supply of the
  flexible token. Otherwise the sale reverts with the storage and the other contracts
  untouched: with the rejection of the balance condition when the return amount meets
  the requested minimum, and with the rejection of the minimum return, which is checked
  first, when it does not. A sale whose return cannot be computed reverts with that
  error.
\<close>

theorem sell_balance_condition:
  "(\<forall>e. get_sale_return h s w tok amount = Inl e \<longrightarrow>
        sell h s w trader tok amount min_return = Reverted e s w) \<and>
   (\<forall>ret fee. get_sale_return h s w tok amount = Inr (ret, fee) \<longrightarrow>
      (\<exists>bal. getConnectorBalance h s w tok = Inr bal \<and>
         ((\<exists>r s' w' evs. sell h s w trader tok amount min_return = Returned r s' w' evs) \<longrightarrow>
            ret < bal \<or> (ret = bal \<and> amount = totalSupply h w)) \<and>
         (\<not> (ret < bal \<or> (ret = bal \<and> amount = totalSupply h w)) \<longrightarrow>
            sell h s w trader tok amount min_return
              = Reverted (if min_return \<le> ret then ConnectorBalanceCondition
                          else ReturnLessThanMinimum) s w)))"
proof (intro conjI allI impI)
  fix e assume "get_sale_return h s w tok amount = Inl e"
  then show "sell h s w trader tok amount min_return = Reverted e s w"
    by (simp add: sell_def)
next
  fix ret fee assume gsr: "get_sale_return h s w tok amount = Inr (ret, fee)"
  from get_sale_return_balance [OF gsr]
  obtain bal where bal: "getConnectorBalance h s w tok = Inr bal" by auto
  let ?cond = "ret < bal \<or> (ret = bal \<and> amount = totalSupply h w)"
  have a: "?cond" if "\<exists>r s' w' evs. sell h s w trader tok amount min_return = Returned r s' w' evs"
    using that gsr bal by (auto simp: sell_def Let_def split: if_splits)
  have b: "sell h s w trader tok amount min_return
              = Reverted (if min_return \<le> ret then ConnectorBalanceCondition
                          else ReturnLessThanMinimum) s w" if "\<not> ?cond"
    using that gsr bal by (simp add: sell_def Let_def)
  from bal a b show "\<exists>bal. getConnectorBalance h s w tok = Inr bal \<and>
         ((\<exists>r s' w' evs. sell h s w trader tok amount min_return = Returned r s' w' evs) \<longrightarrow>
            ret < bal \<or> (ret = bal \<and> amount = totalSupply h w)) \<and>
         (\<not> (ret < bal \<or> (ret = bal \<and> amount = totalSupply h w)) \<longrightarrow>
            sell h s w trader tok amount min_return
              = Reverted (if min_return \<le> ret then ConnectorBalanceCondition
                          else ReturnLessThanMinimum) s w)"
    by blast
qed

theorem sell_balance_condition_witness:
  "get_sale_return (example_host 5 True) two_virtual example_ledger 20 500 = Inr (200, 0) \<and>
   getConnectorBalance (example_host 5 True) two_virtual example_ledger 20 = Inr 400 \<and>
   sell (example_host 5 True) two_virtual example_ledger 5 20 500 1
     = Returned 200 (connector_upd 20 (\<lambda>c. c\<lparr>virtual_balance := 200\<rparr>) two_virtual)
         (example_ledger\<lparr>flexible_supply := 500,
            holdings := (holdings example_ledger)(20 := 300)\<rparr>)
         [Conversion 10 20 5 500 200 0, PriceDataUpdate 20 500 200 500000] \<and>
   (200::int) < 400 \<and>
   get_sale_return generous_host two_virtual example_ledger 20 400 = Inr (400, 0) \<and>
   getConnectorBalance generous_host two_virtual example_ledger 20 = Inr 400 \<and>
   \<not> ((400::int) < 400 \<or> ((400::int) = 400 \<and> 400 = totalSupply generous_host example_ledger)) \<and>
   sell generous_host two_virtual example_ledger 5 20 400 1
     = Reverted ConnectorBalanceCondition two_virtual example_ledger \<and>
   get_sale_return (example_host 5 False) two_virtual example_ledger 20 500 = Inl NotActive \<and>
   sell (example_host 5 False) two_virtual example_ledger 5 20 500 1
     = Reverted NotActive two_virtual example_ledger"
proof -
  have good: "get_sale_return (example_host 5 True) two_virtual example_ledger 20 500
      = Inr (200, 0)"
    "getConnectorBalance (example_host 5 True) two_virtual example_ledger 20 = Inr 400"
    by (simp_all add: eval_defs)
  have idle: "get_sale_return (example_host 5 False) two_virtual example_ledger 20 500
      = Inl NotActive"
    by (simp add: get_sale_return_def example_host_def)
  from sell_balance_condition [of "example_host 5 False" two_virtual example_ledger 20 500 5 1]
    idle
  have stopped: "sell (example_host 5 False) two_virtual example_ledger 5 20 500 1
      = Reverted NotActive two_virtual example_ledger"
    by blast
  from sell_refused_example
  have gen: "get_sale_return generous_host two_virtual example_ledger 20 400 = Inr (400, 0)"
    "getConnectorBalance generous_host two_virtual example_ledger 20 = Inr 400"
    "totalSupply generous_host example_ledger = 1000"
    by simp_all
  from sell_balance_condition [of generous_host two_virtual example_ledger 20 400 5 1] gen
  have refused: "sell generous_host two_virtual example_ledger 5 20 400 1
      = Reverted ConnectorBalanceCondition two_virtual example_ledger"
    by auto
  from good idle stopped gen refused sell_example show ?thesis by simp
qed

text \<open>
  C4: on every path all checks come before any write, so that a request that fails a
  check leaves the storage as it was. The BUY and SELL paths do so, and SELL compares
  the return amount with the balance it read before writing. The CROSS path writes the
  two virtual balances first and checks afterwards, against the balance it has already
  reduced: with connectors 20 and 21 on virtual balances of 400 and 1000, a cross
  conversion of 300 has a return amount of 750, below the balance of 1000, and reverts
  at the balance check with the virtual balances already at 700 and 250; a sale of 750
  against the same balance of 1000 returns.
\<close>

theorem cross_check_after_write:
  "run virtual_requests (installed_3pc, example_ledger) = (two_virtual, example_ledger) \<and>
   get_cross_connector_return (example_host 5 True) two_virtual example_ledger 20 21 300 True
     = Inr (750, 0) \<and>
   getConnectorBalance (example_host 5 True) two_virtual example_ledger 21 = Inr 1000 \<and>
   convert (example_host 5 True) two_virtual example_ledger 5 20 21 300 1
     = Reverted ConnectorBalanceCondition
         (connector_upd 21 (\<lambda>c. c\<lparr>virtual_balance := 250\<rparr>)
            (connector_upd 20 (\<lambda>c. c\<lparr>virtual_balance := 700\<rparr>) two_virtual))
         example_ledger \<and>
   virtual_balance (connectors two_virtual 20) = 400 \<and>
   virtual_balance (connectors
         (connector_upd 21 (\<lambda>c. c\<lparr>virtual_balance := 250\<rparr>)
            (connector_upd 20 (\<lambda>c. c\<lparr>virtual_balance := 700\<rparr>) two_virtual)) 20) = 700 \<and>
   sell (example_host 5 True) two_virtual example_ledger 5 21 750 1
     = Returned 750 (connector_upd 21 (\<lambda>c. c\<lparr>virtual_balance := 250\<rparr>) two_virtual)
         (example_ledger\<lparr>flexible_supply := 250,
            holdings := (holdings example_ledger)(21 := 250)\<rparr>)
         [Conversion 10 21 5 750 750 0, PriceDataUpdate 21 250 250 500000]"
proof -
  have quote: "get_cross_connector_return (example_host 5 True) two_virtual example_ledger
      20 21 300 True = Inr (750, 0)"
    by (simp add: eval_defs)
  have before: "getConnectorBalance (example_host 5 True) two_virtual example_ledger 21
      = Inr 1000"
    by (simp add: eval_defs)
  have cross: "convert (example_host 5 True) two_virtual example_ledger 5 20 21 300 1
     = Reverted ConnectorBalanceCondition
         (connector_upd 21 (\<lambda>c. c\<lparr>virtual_balance := 250\<rparr>)
            (connector_upd 20 (\<lambda>c. c\<lparr>virtual_balance := 700\<rparr>) two_virtual))
         example_ledger"
    by (simp add: eval_defs)
  have old: "virtual_balance (connectors two_virtual 20) = 400"
    by (simp add: two_virtual_def)
  have new: "virtual_balance (connectors
         (connector_upd 21 (\<lambda>c. c\<lparr>virtual_balance := 250\<rparr>)
            (connector_upd 20 (\<lambda>c. c\<lparr>virtual_balance := 700\<rparr>) two_virtual)) 20) = 700"
    by (simp add: connector_upd_def)
  have sale: "sell (example_host 5 True) two_virtual example_ledger 5 21 750 1
     = Returned 750 (connector_upd 21 (\<lambda>c. c\<lparr>virtual_balance := 250\<rparr>) two_virtual)
         (example_ledger\<lparr>flexible_supply := 250,
            holdings := (holdings example_ledger)(21 := 250)\<rparr>)
         [Conversion 10 21 5 750 750 0, PriceDataUpdate 21 250 250 500000]"
    by (simp add: eval_defs)
  from two_virtual_reachable quote before cross old new sale show ?thesis by blast
qed

text \<open>
  C5: a cross conversion returns only if the fee-adjusted return amount is strictly
  below the effective balance that the target connector had before the request; a
  return amount equal to that balance is never accepted.
\<close>

theorem cross_strictly_below_balance:
  assumes "convert h s w trader from_token to_token amount min_return = Returned r s' w' evs"
    and "to_token \<noteq> token h" and "from_token \<noteq> token h"
  shows "\<exists>fee bal. get_cross_connector_return h s w from_token to_token amount True
             = Inr (r, fee) \<and>
           getConnectorBalance h s w to_token = Inr bal \<and> r < bal"
proof -
  from assms have pos: "0 < min_return" and ne: "from_token \<noteq> to_token"
    and cross: "convert_cross_connector h s w trader from_token to_token amount min_return
       = Returned r s' w' evs"
    by (auto simp: convert_def require_positive_value_def Let_def split: if_splits sum.splits)
  from cross ne pos show ?thesis by (rule cross_success)
qed

theorem cross_strictly_below_balance_witness:
  "convert (example_host 5 True) two_virtual example_ledger 5 20 21 100 1
     = Returned 250
         (connector_upd 21 (\<lambda>c. c\<lparr>virtual_balance := 750\<rparr>)
            (connector_upd 20 (\<lambda>c. c\<lparr>virtual_balance := 500\<rparr>) two_virtual))
         (example_ledger\<lparr>holdings := (holdings example_ledger)(21 := 750)\<rparr>)
         [Conversion 20 21 5 100 250 0, PriceDataUpdate 20 1000 500 500000,
          PriceDataUpdate 21 1000 750 500000] \<and>
   21 \<noteq> token (example_host 5 True) \<and> 20 \<noteq> token (example_host 5 True) \<and>
   getConnectorBalance (example_host 5 True) two_virtual example_ledger 21 = Inr 1000 \<and>
   (\<exists>fee bal. get_cross_connector_return (example_host 5 True) two_virtual example_ledger
                 20 21 100 True = Inr (250, fee) \<and>
              getConnectorBalance (example_host 5 True) two_virtual example_ledger 21
                = Inr bal \<and> 250 < bal)"
proof -
  have toks: "21 \<noteq> token (example_host 5 True)" "20 \<noteq> token (example_host 5 True)"
    by (simp_all add: example_host_def)
  have bal: "getConnectorBalance (example_host 5 True) two_virtual example_ledger 21 = Inr 1000"
    by (simp add: eval_defs)
  from cross_strictly_below_balance [OF cross_example toks] cross_example toks bal
  show ?thesis by blast
qed

text \<open>
  C8: after \<open>disableConnectorPurchases\<close> with \<open>True\<close> has completed, and for as long as
  the owner does not call it with \<open>False\<close> for the same connector, the purchase flag of
  the connector is off, every BUY from the connector and every CROSS conversion into it
  reverts with nothing changed, and a SELL into the connector and a CROSS conversion
  out of it do exactly what they would do with the flag on: the same return value or
  the same error, the same effect on the other contracts, the same events, and the same
  storage up to the flag itself.
\<close>

theorem purchase_flag:
  assumes "disableConnectorPurchases h0 s0 c True = Inr s1"
    and "\<forall>(h', call) \<in> set cs. call = DisableConnectorPurchases c False \<longrightarrow>
           msg_sender h' \<noteq> owner h'"
    and "run cs (s1, w1) = (s, w)"
  shows "\<not> is_purchase_enabled (connectors s c) \<and>
         (\<exists>e. convert h s wd trader c (token h) amount m = Reverted e s wd) \<and>
         (c \<noteq> token h \<and> x \<noteq> token h \<longrightarrow>
            (\<exists>e. convert h s wd trader x c amount m = Reverted e s wd)) \<and>
         (c \<noteq> token h \<longrightarrow>
            convert h s wd trader (token h) c amount m
              = with_storage (set_purchase_enabled c False)
                  (convert h (set_purchase_enabled c True s) wd trader (token h) c amount m)) \<and>
         (y \<noteq> c \<and> y \<noteq> token h \<longrightarrow>
            convert h s wd trader c y amount m
              = with_storage (set_purchase_enabled c False)
                  (convert h (set_purchase_enabled c True s) wd trader c y amount m))"
proof -
  from assms(1) have "is_set (connectors s1 c)" and "\<not> is_purchase_enabled (connectors s1 c)"
    by (auto dest: disabled_after)
  with assms(2) have "\<not> is_purchase_enabled (connectors (fst (run cs (s1, w1))) c)"
    using run_keeps_purchase_off [of "(s1, w1)" c cs] by simp
  with assms(3) have off: "\<not> is_purchase_enabled (connectors s c)" by simp
  from off purchase_flag_off [OF off, of h wd trader amount m x y] show ?thesis by blast
qed

theorem purchase_flag_witness:
  "disableConnectorPurchases (example_host 1 True) two_virtual 21 True
     = Inr (set_purchase_enabled 21 False two_virtual) \<and>
   21 \<noteq> token (example_host 5 True) \<and> 20 \<noteq> token (example_host 5 True) \<and> (20::nat) \<noteq> 21 \<and>
   \<not> is_purchase_enabled (connectors
       (fst (run purchase_requests (set_purchase_enabled 21 False two_virtual, example_ledger)))
       21) \<and>
   (\<exists>e. convert (example_host 5 True)
          (fst (run purchase_requests
                  (set_purchase_enabled 21 False two_virtual, example_ledger)))
          example_ledger 5 21 (token (example_host 5 True)) 100 1
        = Reverted e
            (fst (run purchase_requests
                    (set_purchase_enabled 21 False two_virtual, example_ledger)))
            example_ledger) \<and>
   (\<exists>e. convert (example_host 5 True)
          (fst (run purchase_requests
                  (set_purchase_enabled 21 False two_virtual, example_ledger)))
          example_ledger 5 20 21 100 1
        = Reverted e
            (fst (run purchase_requests
                    (set_purchase_enabled 21 False two_virtual, example_ledger)))
            example_ledger) \<and>
   convert (example_host 5 True)
        (fst (run purchase_requests
                (set_purchase_enabled 21 False two_virtual, example_ledger)))
        example_ledger 5 (token (example_host 5 True)) 21 100 1
     = with_storage (set_purchase_enabled 21 False)
         (convert (example_host 5 True)
            (set_purchase_enabled 21 True
               (fst (run purchase_requests
                       (set_purchase_enabled 21 False two_virtual, example_ledger))))
            example_ledger 5 (token (example_host 5 True)) 21 100 1) \<and>
   convert (example_host 5 True)
        (fst (run purchase_requests
                (set_purchase_enabled 21 False two_virtual, example_ledger)))
        example_ledger 5 21 20 100 1
     = with_storage (set_purchase_enabled 21 False)
         (convert (example_host 5 True)
            (set_purchase_enabled 21 True
               (fst (run purchase_requests
                       (set_purchase_enabled 21 False two_virtual, example_ledger))))
            example_ledger 5 21 20 100 1)"
proof -
  let ?s1 = "set_purchase_enabled 21 False two_virtual"
  let ?s = "fst (run purchase_requests (?s1, example_ledger))"
  let ?w = "snd (run purchase_requests (?s1, example_ledger))"
  have dis: "disableConnectorPurchases (example_host 1 True) two_virtual 21 True = Inr ?s1"
    by (simp add: disableConnectorPurchases_def require_owner_only_def example_host_def
        set_purchase_enabled_def two_virtual_def)
  have quiet: "\<forall>(h', call) \<in> set purchase_requests.
      call = DisableConnectorPurchases 21 False \<longrightarrow> msg_sender h' \<noteq> owner h'"
    by (simp add: purchase_requests_def example_host_def)
  have ran: "run purchase_requests (?s1, example_ledger) = (?s, ?w)" by simp
  have toks: "21 \<noteq> token (example_host 5 True)" "20 \<noteq> token (example_host 5 True)"
    "(20::nat) \<noteq> 21"
    by (simp_all add: example_host_def)
  from purchase_flag [OF dis quiet ran, of "example_host 5 True" example_ledger
      5 100 1 20 20]
    dis toks
  show ?thesis by blast
qed

end
